theory Spec2Isabelle
  imports Complex_Main
begin

section \<open>JavaScript values used by quickbook-sync.js\<close>

text \<open>
  Strings are lists of \<^typ>\<open>char\<close>; the model covers the code units below 256.
  A JavaScript number is \<open>NaN\<close>, an infinity, or a finite double, held as the rational
  it denotes (the two zeros are one value: the program cannot tell them apart). Every
  operation computes the exact result and rounds it to the nearest double, ties to the
  even significand, as IEEE 754 prescribes.
\<close>

datatype jsnum = NaN | PosInf | NegInf | Fin rat

definition round_half_even :: "rat \<Rightarrow> int" where
  "round_half_even x =
     (let f = \<lfloor>x\<rfloor>; r = x - of_int f
      in if r < 1 / 2 then f else if 1 / 2 < r then f + 1 else if even f then f else f + 1)"

text \<open>
  The spacing of the doubles around \<open>x\<close> is \<open>2 ^ j\<close> for the largest \<open>j\<close> from \<open>-1074\<close> to
  \<open>971\<close> with \<open>2 ^ (j + 52) \<le> |x|\<close>, and \<open>2 ^ -1074\<close> below the normal range.
  \<open>ulp_search n\<close> tries \<open>j = n - 1074\<close> downwards.
\<close>

primrec ulp_search :: "nat \<Rightarrow> rat \<Rightarrow> int" where
  "ulp_search 0 x = - 1074"
| "ulp_search (Suc n) x =
     (if 2 powi (int n - 1021) \<le> x then int n - 1073 else ulp_search n x)"

definition ulp :: "rat \<Rightarrow> rat" where
  "ulp x = 2 powi (ulp_search 2045 \<bar>x\<bar>)"

text \<open>The double nearest to \<open>x\<close>; a result of magnitude \<open>2 ^ 1024\<close> is an infinity.\<close>

definition round_double :: "rat \<Rightarrow> jsnum" where
  "round_double x =
     (let q = ulp x; y = of_int (round_half_even (x / q)) * q
      in if 2 ^ 1024 \<le> y then PosInf else if y \<le> - (2 ^ 1024) then NegInf else Fin y)"

fun js_add :: "jsnum \<Rightarrow> jsnum \<Rightarrow> jsnum" where
  "js_add NaN _ = NaN"
| "js_add _ NaN = NaN"
| "js_add PosInf NegInf = NaN"
| "js_add NegInf PosInf = NaN"
| "js_add PosInf _ = PosInf"
| "js_add _ PosInf = PosInf"
| "js_add NegInf _ = NegInf"
| "js_add _ NegInf = NegInf"
| "js_add (Fin a) (Fin b) = round_double (a + b)"

text \<open>\<open>x * c\<close> and \<open>x / c\<close> for a positive finite constant \<open>c\<close>.\<close>

fun js_times_pos :: "jsnum \<Rightarrow> rat \<Rightarrow> jsnum" where
  "js_times_pos (Fin a) c = round_double (a * c)"
| "js_times_pos x c = x"

fun js_div_pos :: "jsnum \<Rightarrow> rat \<Rightarrow> jsnum" where
  "js_div_pos (Fin a) c = round_double (a / c)"
| "js_div_pos x c = x"

fun Math_abs :: "jsnum \<Rightarrow> jsnum" where
  "Math_abs NaN = NaN"
| "Math_abs PosInf = PosInf"
| "Math_abs NegInf = PosInf"
| "Math_abs (Fin a) = Fin \<bar>a\<bar>"

fun Number_isFinite :: "jsnum \<Rightarrow> bool" where
  "Number_isFinite (Fin a) = True"
| "Number_isFinite _ = False"

text \<open>\<open>x === 0\<close> and \<open>x > 0\<close> on numbers: both are false for \<open>NaN\<close>.\<close>

fun js_is_zero :: "jsnum \<Rightarrow> bool" where
  "js_is_zero (Fin a) = (a = 0)"
| "js_is_zero _ = False"

fun js_gt_zero :: "jsnum \<Rightarrow> bool" where
  "js_gt_zero (Fin a) = (0 < a)"
| "js_gt_zero PosInf = True"
| "js_gt_zero _ = False"

fun js_lt_zero :: "jsnum \<Rightarrow> bool" where
  "js_lt_zero (Fin a) = (a < 0)"
| "js_lt_zero NegInf = True"
| "js_lt_zero _ = False"

text \<open>
  \<open>Number(x.toFixed(2))\<close>: \<open>toFixed\<close> takes the integer \<open>n\<close> with \<open>n / 100\<close> nearest to the
  magnitude of the double (the larger on a tie) and prints it with two decimals and the
  sign; \<open>Number\<close> reads that decimal back as a double. From \<open>1e21\<close> on \<open>toFixed\<close> prints
  the number itself, as it does \<open>NaN\<close> and the infinities, and these parse back.
\<close>

fun toFixed2 :: "jsnum \<Rightarrow> jsnum" where
  "toFixed2 (Fin a) =
     (if 10 ^ 21 \<le> \<bar>a\<bar> then Fin a
      else round_double (sgn a * of_int \<lfloor>\<bar>a\<bar> * 100 + 1 / 2\<rfloor> / 100))"
| "toFixed2 x = x"

subsection \<open>White space, trim, split\<close>

definition isWhiteSpace :: "char \<Rightarrow> bool" where
  "isWhiteSpace c = ((of_char c :: nat) \<in> {9, 10, 11, 12, 13, 32, 160})"

definition trim :: "string \<Rightarrow> string" where
  "trim s = rev (dropWhile isWhiteSpace (rev (dropWhile isWhiteSpace s)))"

text \<open>\<open>s.replace(/\s+/g, " ")\<close>: every maximal run of white space becomes one space.\<close>

fun collapse_from :: "bool \<Rightarrow> string \<Rightarrow> string" where
  "collapse_from in_run [] = []"
| "collapse_from in_run (c # cs) =
     (if isWhiteSpace c then
        (if in_run then collapse_from True cs else CHR '' '' # collapse_from True cs)
      else c # collapse_from False cs)"

definition collapse_ws :: "string \<Rightarrow> string" where
  "collapse_ws s = collapse_from False s"

text \<open>\<open>s.split(".")[0]\<close>: the text before the first dot.\<close>

definition before_dot :: "string \<Rightarrow> string" where
  "before_dot s = takeWhile (\<lambda>c. c \<noteq> CHR ''.'') s"

subsection \<open>\<open>Number\<close> applied to a string\<close>

text \<open>
  The StringNumericLiteral grammar of ECMAScript: optional white space around an empty
  text (value \<open>0\<close>), a hexadecimal, octal or binary integer with its prefix and no
  sign, or an optionally signed decimal literal (\<open>Infinity\<close>, or digits with an
  optional fraction and an optional exponent). Anything else is \<open>NaN\<close>. The value
  of a literal is its exact value rounded to the nearest double.
\<close>

definition digitval :: "char \<Rightarrow> nat option" where
  "digitval c =
     (let n = (of_char c :: nat) in
      if 48 \<le> n \<and> n \<le> 57 then Some (n - 48)
      else if 97 \<le> n \<and> n \<le> 102 then Some (n - 87)
      else if 65 \<le> n \<and> n \<le> 70 then Some (n - 55)
      else None)"

fun digits_val :: "nat \<Rightarrow> nat \<Rightarrow> string \<Rightarrow> nat option" where
  "digits_val b acc [] = Some acc"
| "digits_val b acc (c # cs) =
     (case digitval c of
        None \<Rightarrow> None
      | Some d \<Rightarrow> if d < b then digits_val b (acc * b + d) cs else None)"

definition number_in_base :: "nat \<Rightarrow> string \<Rightarrow> nat option" where
  "number_in_base b s = (if s = [] then None else digits_val b 0 s)"

definition isExpChar :: "char \<Rightarrow> bool" where
  "isExpChar c = (c = CHR ''e'' \<or> c = CHR ''E'')"

definition mantissa :: "string \<Rightarrow> rat option" where
  "mantissa m =
     (let ip = takeWhile (\<lambda>c. c \<noteq> CHR ''.'') m;
          fr = dropWhile (\<lambda>c. c \<noteq> CHR ''.'') m
      in case fr of
           [] \<Rightarrow> map_option of_nat (number_in_base 10 ip)
         | _ # fp \<Rightarrow>
             if ip = [] \<and> fp = [] then None
             else (case (digits_val 10 0 ip, digits_val 10 0 fp) of
                     (Some a, Some b) \<Rightarrow> Some (of_nat a + of_nat b / 10 ^ length fp)
                   | _ \<Rightarrow> None))"

definition exponent :: "string \<Rightarrow> int option" where
  "exponent r =
     (case r of
        [] \<Rightarrow> Some 0
      | _ # es \<Rightarrow>
          (case es of
             [] \<Rightarrow> None
           | s # ds \<Rightarrow>
               if s = CHR ''+'' then map_option int (number_in_base 10 ds)
               else if s = CHR ''-'' then map_option (\<lambda>n. - int n) (number_in_base 10 ds)
               else map_option int (number_in_base 10 es)))"

definition scale10 :: "rat \<Rightarrow> int \<Rightarrow> rat" where
  "scale10 m e = (if 0 \<le> e then m * 10 ^ nat e else m / 10 ^ nat (- e))"

definition unsigned_decimal :: "string \<Rightarrow> rat option" where
  "unsigned_decimal s =
     (case (mantissa (takeWhile (\<lambda>c. \<not> isExpChar c) s),
            exponent (dropWhile (\<lambda>c. \<not> isExpChar c) s)) of
        (Some m, Some e) \<Rightarrow> Some (scale10 m e)
      | _ \<Rightarrow> None)"

definition StrDecimalLiteral :: "string \<Rightarrow> jsnum" where
  "StrDecimalLiteral s =
     (case s of
        [] \<Rightarrow> NaN
      | c # cs \<Rightarrow>
          if c = CHR ''+'' then
            (if cs = ''Infinity'' then PosInf
             else case unsigned_decimal cs of None \<Rightarrow> NaN | Some v \<Rightarrow> round_double v)
          else if c = CHR ''-'' then
            (if cs = ''Infinity'' then NegInf
             else case unsigned_decimal cs of None \<Rightarrow> NaN | Some v \<Rightarrow> round_double (- v))
          else
            (if s = ''Infinity'' then PosInf
             else case unsigned_decimal s of None \<Rightarrow> NaN | Some v \<Rightarrow> round_double v))"

definition prefixed :: "nat \<Rightarrow> string \<Rightarrow> jsnum" where
  "prefixed b ds = (case number_in_base b ds of None \<Rightarrow> NaN | Some n \<Rightarrow> round_double (of_nat n))"

definition StringToNumber :: "string \<Rightarrow> jsnum" where
  "StringToNumber str =
     (let s = trim str in
      if s = [] then Fin 0
      else case s of
        z # p # ds \<Rightarrow>
          if z = CHR ''0'' \<and> (p = CHR ''x'' \<or> p = CHR ''X'') then prefixed 16 ds
          else if z = CHR ''0'' \<and> (p = CHR ''o'' \<or> p = CHR ''O'') then prefixed 8 ds
          else if z = CHR ''0'' \<and> (p = CHR ''b'' \<or> p = CHR ''B'') then prefixed 2 ds
          else StrDecimalLiteral s
      | _ \<Rightarrow> StrDecimalLiteral s)"

text \<open>
  The scalar JSON values a field can hold, \<open>undefined\<close> for a missing field; their
  truthiness (\<open>v || d\<close>) and \<open>Number(v)\<close>.
\<close>

datatype jsval = JUndefined | JNull | JBool bool | JNumber jsnum | JString string

fun truthy :: "jsval \<Rightarrow> bool" where
  "truthy JUndefined = False"
| "truthy JNull = False"
| "truthy (JBool b) = b"
| "truthy (JNumber n) = (n \<noteq> NaN \<and> n \<noteq> Fin 0)"
| "truthy (JString s) = (s \<noteq> [])"

fun Number_js :: "jsval \<Rightarrow> jsnum" where
  "Number_js JUndefined = NaN"
| "Number_js JNull = Fin 0"
| "Number_js (JBool b) = (if b then Fin 1 else Fin 0)"
| "Number_js (JNumber n) = n"
| "Number_js (JString s) = StringToNumber s"

definition truthy_str :: "string option \<Rightarrow> bool" where
  "truthy_str x = (case x of None \<Rightarrow> False | Some s \<Rightarrow> s \<noteq> [])"

definition str_or :: "string option \<Rightarrow> string \<Rightarrow> string" where
  "str_or x d = (case x of None \<Rightarrow> d | Some s \<Rightarrow> if s = [] then d else s)"


section \<open>Errors\<close>

text \<open>
  Every \<open>throw\<close> of the program and every runtime exception it can meet is a value:
  \<open>Error msg\<close> for \<open>new Error(msg)\<close>, \<open>TypeError\<close> and \<open>RangeError\<close> for the
  runtime's own, \<open>Rejected\<close> for whatever a network call rejects with (a transport
  failure, a non-2xx status, a body that is not JSON).
\<close>

datatype error = Error string | TypeError string | RangeError string | Rejected string

section \<open>Dates\<close>

text \<open>
  A \<open>Date\<close> holds a time value in milliseconds since the epoch, or is invalid.
  \<open>new Date(v)\<close> clips: a value that is not finite or exceeds \<open>8.64e15\<close> in magnitude
  gives an invalid date, any other is truncated towards zero.
\<close>

datatype js_date = InvalidDate | TimeValue int

definition trunc :: "rat \<Rightarrow> int" where
  "trunc v = (if 0 \<le> v then \<lfloor>v\<rfloor> else \<lceil>v\<rceil>)"

fun new_Date :: "jsnum \<Rightarrow> js_date" where
  "new_Date (Fin v) = (if 8640000000000000 < \<bar>v\<bar> then InvalidDate else TimeValue (trunc v))"
| "new_Date x = InvalidDate"

text \<open>The proleptic Gregorian date of a day number (days since 1970-01-01).\<close>

definition civil_from_days :: "int \<Rightarrow> int \<times> int \<times> int" where
  "civil_from_days days =
     (let z = days + 719468;
          era = z div 146097;
          doe = z mod 146097;
          yoe = (doe - doe div 1460 + doe div 36524 - doe div 146096) div 365;
          doy = doe - (365 * yoe + yoe div 4 - yoe div 100);
          mp = (5 * doy + 2) div 153;
          d = doy - (153 * mp + 2) div 5 + 1;
          m = (if mp < 10 then mp + 3 else mp - 9);
          y = yoe + era * 400 + (if m \<le> 2 then 1 else 0)
      in (y, m, d))"

definition digit_char :: "nat \<Rightarrow> char" where
  "digit_char n = ''0123456789'' ! (n mod 10)"

text \<open>A number as two, three, four and six decimal digits, zero-padded.\<close>

definition pad2 :: "nat \<Rightarrow> string" where
  "pad2 n = [digit_char (n div 10), digit_char n]"

definition pad3 :: "nat \<Rightarrow> string" where
  "pad3 n = digit_char (n div 100) # pad2 n"

definition pad4 :: "nat \<Rightarrow> string" where
  "pad4 n = digit_char (n div 1000) # pad3 n"

definition pad6 :: "nat \<Rightarrow> string" where
  "pad6 n = digit_char (n div 100000) # digit_char (n div 10000) # pad4 n"

definition iso_year :: "int \<Rightarrow> string" where
  "iso_year y =
     (if 0 \<le> y \<and> y \<le> 9999 then pad4 (nat y)
      else (if y < 0 then ''-'' else ''+'') @ pad6 (nat \<bar>y\<bar>))"

text \<open>\<open>d.toISOString()\<close>: \<open>YYYY-MM-DDTHH:mm:ss.sssZ\<close>, a \<open>RangeError\<close> on an invalid date.\<close>

fun toISOString :: "js_date \<Rightarrow> error + string" where
  "toISOString InvalidDate = Inl (RangeError ''Invalid time value'')"
| "toISOString (TimeValue t) =
     (let (y, m, d) = civil_from_days (t div 86400000);
          ms = nat (t mod 86400000)
      in Inr (iso_year y @ ''-'' @ pad2 (nat m) @ ''-'' @ pad2 (nat d) @ ''T''
              @ pad2 (ms div 3600000) @ '':'' @ pad2 (ms div 60000 mod 60) @ '':''
              @ pad2 (ms div 1000 mod 60) @ ''.'' @ pad3 (ms mod 1000) @ ''Z''))"

definition slice_0_10 :: "error + string \<Rightarrow> error + string" where
  "slice_0_10 r = (case r of Inl e \<Rightarrow> Inl e | Inr s \<Rightarrow> Inr (take 10 s))"

section \<open>Hedera helpers\<close>

text \<open>
  A mirror-node transaction: \<open>None\<close> is a missing (or \<open>null\<close>) field. An entry's
  amount is any scalar JSON value, since the program converts it with \<open>Number\<close>.
\<close>

record transfer_entry =
  e_account :: "string option"
  e_amount :: jsval

record raw_tx =
  transaction_id :: "string option"
  consensus_timestamp :: "string option"
  transfers :: "transfer_entry list option"

definition transfers_or_empty :: "raw_tx \<Rightarrow> transfer_entry list" where
  "transfers_or_empty tx = (case transfers tx of None \<Rightarrow> [] | Some ts \<Rightarrow> ts)"

text \<open>\<open>Number(t.amount || 0)\<close>\<close>

definition amount_number :: "transfer_entry \<Rightarrow> jsnum" where
  "amount_number t = Number_js (if truthy (e_amount t) then e_amount t else JNumber (Fin 0))"

definition netTinybarFor :: "raw_tx \<Rightarrow> string \<Rightarrow> jsnum" where
  "netTinybarFor tx hederaId =
     foldl (\<lambda>sum t. js_add sum (amount_number t)) (Fin 0)
       (filter (\<lambda>t. e_account t = Some hederaId) (transfers_or_empty tx))"

record counterparty =
  cp_account :: "string option"
  cp_amount :: jsnum

definition otherAccountsInTransfer :: "raw_tx \<Rightarrow> string \<Rightarrow> counterparty list" where
  "otherAccountsInTransfer tx targetId =
     filter (\<lambda>t. truthy_str (cp_account t) \<and> cp_account t \<noteq> Some targetId)
       (map (\<lambda>t. \<lparr>cp_account = e_account t, cp_amount = amount_number t\<rparr>)
          (transfers_or_empty tx))"

text \<open>
  \<open>now\<close> is the clock's reading in milliseconds, the value of \<open>new Date()\<close>.
\<close>

definition toTxnDateFromConsensus :: "int \<Rightarrow> string option \<Rightarrow> error + string" where
  "toTxnDateFromConsensus now consensusTs =
     (if \<not> truthy_str consensusTs then slice_0_10 (toISOString (TimeValue now))
      else
        let secs = StringToNumber (before_dot (str_or consensusTs []))
        in if \<not> Number_isFinite secs then slice_0_10 (toISOString (TimeValue now))
           else slice_0_10 (toISOString (new_Date (js_times_pos secs 1000))))"

definition makeIdempotencyKey :: "raw_tx \<Rightarrow> string" where
  "makeIdempotencyKey tx =
     ''hedera:'' @ str_or (transaction_id tx) [] @ '':'' @ str_or (consensus_timestamp tx) []"


section \<open>The accounting backend and the mirror node\<close>

text \<open>
  A parsed response body of the QuickBooks API: an object that may carry a \<open>Fault\<close>
  (held as its JSON text), a \<open>QueryResponse\<close> with one array per entity kind, or a
  created \<open>Account\<close>. \<open>None\<close> is an absent field.
\<close>

record qbo_entity =
  ent_Id :: "string option"
  PrivateNote :: "string option"

record query_response =
  qr_Account :: "qbo_entity list option"
  qr_Deposit :: "qbo_entity list option"
  qr_Transfer :: "qbo_entity list option"

record qbo_body =
  Fault :: "string option"
  QueryResponse :: "query_response option"
  Account :: "qbo_entity option"

text \<open>The payloads the program posts. An account id is whatever \<open>Id\<close> the backend gave.\<close>

record account_payload =
  acc_Name :: string
  acc_AccountType :: string
  acc_AccountSubType :: "string option"

record deposit_payload =
  dep_TxnDate :: string
  dep_DepositToAccountRef :: "string option"
  dep_PrivateNote :: string
  dep_Line_Amount :: jsnum
  dep_Line_AccountRef :: "string option"

record transfer_payload =
  tr_TxnDate :: string
  tr_FromAccountRef :: "string option"
  tr_ToAccountRef :: "string option"
  tr_Amount :: jsnum
  tr_PrivateNote :: string

text \<open>
  The calls of \<open>oauthClient.makeApiCall\<close>, each with the company realm of its URL: the
  query endpoint and the three create endpoints.
\<close>

datatype qbo_request =
    Query string string
  | PostAccount string account_payload
  | PostDeposit string deposit_payload
  | PostTransfer string transfer_payload

record mirror_data =
  transactions :: "raw_tx list option"

record mirror_response =
  ok :: bool
  status :: nat
  json :: "error + mirror_data"

record token =
  tok_realmId :: "string option"

text \<open>
  The outside world is a parameter: a state \<open>'w\<close> and what each call answers and does
  to it. \<open>makeApiCall\<close> stands for the call followed by \<open>JSON.parse(r.body)\<close>; \<open>Inl\<close>
  is a rejection of either.
\<close>

record 'w env =
  makeApiCall :: "qbo_request \<Rightarrow> 'w \<Rightarrow> (error + qbo_body) \<times> 'w"
  fetch_mirror :: "string \<Rightarrow> nat \<Rightarrow> 'w \<Rightarrow> (error + mirror_response) \<times> 'w"
  getToken :: "'w \<Rightarrow> token option"
  createToken :: "string \<Rightarrow> 'w \<Rightarrow> (error + unit) \<times> 'w"
  clock :: "'w \<Rightarrow> int"

record config =
  TARGET_HEDERA_ACCOUNT :: string
  TRACKED_HEDERA_ACCOUNTS :: "string list"

datatype call = QboCall qbo_request | MirrorCall string nat

text \<open>
  The process state: the module-level \<open>seenKeys\<close> (a set in insertion order) and
  \<open>realmId\<close>, the world, and a log of the calls made so far.
\<close>

record 'w state =
  world :: 'w
  seenKeys :: "string list"
  realmId :: "string option"
  calls :: "call list"

type_synonym ('w, 'a) io = "'w state \<Rightarrow> (error + 'a) \<times> 'w state"

definition ret :: "'a \<Rightarrow> ('w, 'a) io" where
  "ret a s = (Inr a, s)"

definition throw :: "error \<Rightarrow> ('w, 'a) io" where
  "throw e s = (Inl e, s)"

definition andThen :: "('w, 'a) io \<Rightarrow> ('a \<Rightarrow> ('w, 'b) io) \<Rightarrow> ('w, 'b) io" where
  "andThen m f s = (case m s of (Inl e, s') \<Rightarrow> (Inl e, s') | (Inr a, s') \<Rightarrow> f a s')"

definition api :: "'w env \<Rightarrow> qbo_request \<Rightarrow> ('w, qbo_body) io" where
  "api env r s =
     (case makeApiCall env r (world s) of
        (res, w') \<Rightarrow> (res, s\<lparr>world := w', calls := calls s @ [QboCall r]\<rparr>))"

subsection \<open>De-dupe cache\<close>

definition alreadyProcessedInMemory :: "string \<Rightarrow> 'w state \<Rightarrow> bool \<times> 'w state" where
  "alreadyProcessedInMemory key s =
     (if key \<in> set (seenKeys s) then (True, s)
      else (False, s\<lparr>seenKeys := seenKeys s @ [key]\<rparr>))"

subsection \<open>Realm helper\<close>

definition getCompanyRealmIdOrThrow :: "'w env \<Rightarrow> ('w, string) io" where
  "getCompanyRealmIdOrThrow env s =
     (case getToken env (world s) of
        None \<Rightarrow> throw (Error ''Not authenticated (no token)'') s
      | Some tok \<Rightarrow>
          if \<not> truthy_str (tok_realmId tok) then throw (Error ''Token missing realmId'') s
          else if truthy_str (realmId s) \<and> realmId s \<noteq> tok_realmId tok then
            throw (Error (''Realm mismatch: realmId var='' @ str_or (realmId s) []
                          @ '' vs token.realmId='' @ str_or (tok_realmId tok) []
                          @ ''. Re-authorize.'')) s
          else ret (str_or (tok_realmId tok) []) s)"

subsection \<open>The OAuth callback\<close>

datatype callback_response = TokenPage | CallbackFailed error

definition callback :: "'w env \<Rightarrow> string option \<Rightarrow> string \<Rightarrow> 'w state \<Rightarrow> callback_response \<times> 'w state" where
  "callback env query_realmId url s =
     (let newRealmId = (if truthy_str query_realmId then query_realmId else None);
          s1 = (if truthy_str (realmId s) \<and> truthy_str newRealmId \<and> realmId s \<noteq> newRealmId
                then s\<lparr>seenKeys := []\<rparr> else s);
          s2 = s1\<lparr>realmId := newRealmId\<rparr>
      in case createToken env url (world s2) of
           (Inl e, w') \<Rightarrow> (CallbackFailed e, s2\<lparr>world := w'\<rparr>)
         | (Inr u, w') \<Rightarrow> (TokenPage, s2\<lparr>world := w'\<rparr>))"

subsection \<open>QBO helpers\<close>

definition qboQuery :: "'w env \<Rightarrow> string \<Rightarrow> string \<Rightarrow> ('w, qbo_body) io" where
  "qboQuery env companyRealmId query = api env (Query companyRealmId query)"

definition qboEscape :: "string \<Rightarrow> string" where
  "qboEscape str =
     concat (map (\<lambda>c. if c = CHR 0x27 then [CHR 0x5C, CHR 0x27] else [c])
       (concat (map (\<lambda>c. if c = CHR 0x5C then [CHR 0x5C, CHR 0x5C] else [c]) str)))"

text \<open>The loop \<open>for (const c of candidates) if (c.PrivateNote === key) return true\<close>.\<close>

fun note_matches :: "string \<Rightarrow> qbo_entity list \<Rightarrow> bool" where
  "note_matches key [] = False"
| "note_matches key (c # cs) = (if PrivateNote c = Some key then True else note_matches key cs)"

definition transfer_dedupe_query :: "string \<Rightarrow> string" where
  "transfer_dedupe_query txnDate =
     trim (collapse_ws
       ([CHR 0x0A] @ ''    select Id,PrivateNote from Transfer'' @ [CHR 0x0A]
        @ ''    where TxnDate='' @ [CHR 0x27] @ txnDate @ [CHR 0x27] @ [CHR 0x0A]
        @ ''    maxresults 200'' @ [CHR 0x0A] @ ''  ''))"

definition deposit_dedupe_query :: "string \<Rightarrow> string" where
  "deposit_dedupe_query txnDate =
     trim (collapse_ws
       ([CHR 0x0A] @ ''    select Id, PrivateNote from Deposit'' @ [CHR 0x0A]
        @ ''    where TxnDate='' @ [CHR 0x27] @ txnDate @ [CHR 0x27] @ [CHR 0x0A]
        @ ''    maxresults 200'' @ [CHR 0x0A] @ ''  ''))"

text \<open>
  The arguments are the fields of the object the caller passes; \<open>amount\<close> and the two
  account ids are received and, but for the unused \<open>amt\<close>, not read.
\<close>

definition qboExistsTransferByKey ::
  "'w env \<Rightarrow> string \<Rightarrow> string \<Rightarrow> jsnum \<Rightarrow> string option \<Rightarrow> string option \<Rightarrow> string
     \<Rightarrow> ('w, bool) io" where
  "qboExistsTransferByKey env companyRealmId txnDate amount fromAccountId toAccountId key =
     (let amt = toFixed2 amount;
          query = transfer_dedupe_query txnDate
      in andThen (qboQuery env companyRealmId query) (\<lambda>data.
           let candidates =
                 (case QueryResponse data of
                    None \<Rightarrow> []
                  | Some qr \<Rightarrow> (case qr_Transfer qr of None \<Rightarrow> [] | Some cs \<Rightarrow> cs))
           in if length candidates = 0 then ret False
              else ret (note_matches key candidates)))"

definition qboExistsDepositByKey ::
  "'w env \<Rightarrow> string \<Rightarrow> string \<Rightarrow> jsnum \<Rightarrow> string option \<Rightarrow> string option \<Rightarrow> string
     \<Rightarrow> ('w, bool) io" where
  "qboExistsDepositByKey env companyRealmId txnDate amount depositToAccountId sourceAccountId key =
     (let query = deposit_dedupe_query txnDate
      in andThen (qboQuery env companyRealmId query) (\<lambda>data.
           let candidates =
                 (case QueryResponse data of
                    None \<Rightarrow> []
                  | Some qr \<Rightarrow> (case qr_Deposit qr of None \<Rightarrow> [] | Some cs \<Rightarrow> cs))
           in if length candidates = 0 then ret False
              else ret (note_matches key candidates)))"

definition account_find_query :: "string \<Rightarrow> string" where
  "account_find_query safeName =
     ''select * from Account where Name='' @ [CHR 0x27] @ safeName @ [CHR 0x27]
     @ '' maxresults 1''"

definition getOrCreateQboAccount ::
  "'w env \<Rightarrow> string \<Rightarrow> string \<Rightarrow> string \<Rightarrow> string option \<Rightarrow> ('w, string option) io" where
  "getOrCreateQboAccount env companyRealmId name accountType accountSubType =
     (let safeName = qboEscape name;
          findQuery = account_find_query safeName
      in andThen (qboQuery env companyRealmId findQuery) (\<lambda>foundData.
           let found =
                 (case QueryResponse foundData of
                    None \<Rightarrow> None
                  | Some qr \<Rightarrow>
                      (case qr_Account qr of
                         None \<Rightarrow> None
                       | Some [] \<Rightarrow> None
                       | Some (a # rest) \<Rightarrow> Some a))
           in if (case found of None \<Rightarrow> False | Some a \<Rightarrow> truthy_str (ent_Id a))
              then ret (case found of None \<Rightarrow> None | Some a \<Rightarrow> ent_Id a)
              else
                andThen
                  (api env (PostAccount companyRealmId
                     \<lparr>acc_Name = name, acc_AccountType = accountType,
                      acc_AccountSubType =
                        (if truthy_str accountSubType then accountSubType else None)\<rparr>))
                  (\<lambda>body.
                     case Fault body of
                       Some f \<Rightarrow> throw (Error f)
                     | None \<Rightarrow>
                         (case Account body of
                            None \<Rightarrow>
                              throw (TypeError
                                ''Cannot read properties of undefined (reading Id)'')
                          | Some a \<Rightarrow> ret (ent_Id a)))))"

definition hederaWalletAccountName :: "string \<Rightarrow> string" where
  "hederaWalletAccountName hederaId = ''Hedera '' @ hederaId"

definition getOrCreateWalletBankAccount :: "'w env \<Rightarrow> string \<Rightarrow> string \<Rightarrow> ('w, string option) io" where
  "getOrCreateWalletBankAccount env companyRealmId hederaId =
     getOrCreateQboAccount env companyRealmId (hederaWalletAccountName hederaId) ''Bank'' None"

definition getOrCreateClearingAccount :: "'w env \<Rightarrow> string \<Rightarrow> ('w, string option) io" where
  "getOrCreateClearingAccount env companyRealmId =
     getOrCreateQboAccount env companyRealmId ''Hedera Clearing'' ''Income'' None"

definition getOrCreateExternalOutflowBank :: "'w env \<Rightarrow> string \<Rightarrow> ('w, string option) io" where
  "getOrCreateExternalOutflowBank env companyRealmId =
     getOrCreateQboAccount env companyRealmId ''External Hedera Outflow'' ''Bank'' None"

definition createQboDeposit ::
  "'w env \<Rightarrow> string \<Rightarrow> string option \<Rightarrow> string option \<Rightarrow> jsnum \<Rightarrow> string \<Rightarrow> string
     \<Rightarrow> ('w, qbo_body) io" where
  "createQboDeposit env companyRealmId depositToAccountId sourceAccountId amount privateNoteKey txnDate =
     andThen
       (api env (PostDeposit companyRealmId
          \<lparr>dep_TxnDate = txnDate, dep_DepositToAccountRef = depositToAccountId,
           dep_PrivateNote = privateNoteKey, dep_Line_Amount = toFixed2 amount,
           dep_Line_AccountRef = sourceAccountId\<rparr>))
       (\<lambda>body. case Fault body of Some f \<Rightarrow> throw (Error f) | None \<Rightarrow> ret body)"

definition createQboTransfer ::
  "'w env \<Rightarrow> string \<Rightarrow> string option \<Rightarrow> string option \<Rightarrow> jsnum \<Rightarrow> string \<Rightarrow> string
     \<Rightarrow> ('w, qbo_body) io" where
  "createQboTransfer env companyRealmId fromAccountId toAccountId amount privateNoteKey txnDate =
     andThen
       (api env (PostTransfer companyRealmId
          \<lparr>tr_TxnDate = txnDate, tr_FromAccountRef = fromAccountId,
           tr_ToAccountRef = toAccountId, tr_Amount = toFixed2 amount,
           tr_PrivateNote = privateNoteKey\<rparr>))
       (\<lambda>body. case Fault body of Some f \<Rightarrow> throw (Error f) | None \<Rightarrow> ret body)"


subsection \<open>Hedera mirror node\<close>

fun dec_string :: "nat \<Rightarrow> string" where
  "dec_string n = (if n < 10 then [digit_char n] else dec_string (n div 10) @ [digit_char n])"

definition fetchMirrorTransactionsForAccount :: "'w env \<Rightarrow> string \<Rightarrow> nat \<Rightarrow> ('w, mirror_data) io" where
  "fetchMirrorTransactionsForAccount env hederaId limit s =
     (case fetch_mirror env hederaId limit (world s) of
        (res, w') \<Rightarrow>
          let s' = s\<lparr>world := w', calls := calls s @ [MirrorCall hederaId limit]\<rparr>
          in (case res of
                Inl e \<Rightarrow> (Inl e, s')
              | Inr r \<Rightarrow>
                  if \<not> ok r then (Inl (Error (''Mirror node HTTP '' @ dec_string (status r))), s')
                  else (json r, s')))"

section \<open>The reconciliation batch: \<open>/syncHederaToQbo\<close>\<close>

datatype entity_type = Deposit | Transfer

text \<open>
  The objects pushed onto \<open>results\<close>: \<open>kind\<close> is the constructor, then \<open>type\<close>,
  \<open>from\<close> (absent for a deposit), \<open>to\<close>, \<open>hbar\<close>, \<open>txnDate\<close> and \<open>key\<close>.
\<close>

datatype outcome =
    SKIPPED_MEMORY string
  | SKIPPED_QBO entity_type string
  | CREATED entity_type "string option" string jsnum string string

text \<open>The constants the handler binds before its loop.\<close>

record loop_vars =
  companyRealmId :: string
  target :: string
  targetWalletId :: "string option"
  clearingId :: "string option"
  externalOutflowId :: "string option"

text \<open>\<open>others.find(a => TRACKED_HEDERA_ACCOUNTS.includes(a))\<close>\<close>

definition find_tracked :: "config \<Rightarrow> string option list \<Rightarrow> string option" where
  "find_tracked cfg others =
     (case List.find (\<lambda>a. case a of None \<Rightarrow> False
                              | Some x \<Rightarrow> x \<in> set (TRACKED_HEDERA_ACCOUNTS cfg)) others of
        None \<Rightarrow> None
      | Some a \<Rightarrow> a)"

text \<open>The branch \<open>net > 0\<close> of the loop body.\<close>

definition process_inbound ::
  "'w env \<Rightarrow> loop_vars \<Rightarrow> jsnum \<Rightarrow> string \<Rightarrow> string \<Rightarrow> outcome list \<Rightarrow> ('w, outcome list) io" where
  "process_inbound env v hbar txnDate key results =
     andThen
       (qboExistsDepositByKey env (companyRealmId v) txnDate hbar (targetWalletId v)
          (clearingId v) key)
       (\<lambda>exists.
          if exists then ret (results @ [SKIPPED_QBO Deposit key])
          else
            andThen
              (createQboDeposit env (companyRealmId v) (targetWalletId v) (clearingId v)
                 hbar key txnDate)
              (\<lambda>created.
                 ret (results @ [CREATED Deposit None (target v) hbar txnDate key])))"

text \<open>The \<open>else\<close> branch of the loop body.\<close>

definition process_outbound ::
  "'w env \<Rightarrow> config \<Rightarrow> loop_vars \<Rightarrow> raw_tx \<Rightarrow> jsnum \<Rightarrow> string \<Rightarrow> string \<Rightarrow> outcome list
     \<Rightarrow> ('w, outcome list) io" where
  "process_outbound env cfg v tx hbar txnDate key results =
     (let others = map cp_account (otherAccountsInTransfer tx (target v));
          toTracked = find_tracked cfg others
      in andThen
           (if truthy_str toTracked
            then getOrCreateWalletBankAccount env (companyRealmId v) (str_or toTracked [])
            else ret (externalOutflowId v))
           (\<lambda>toAccountId.
              andThen
                (qboExistsTransferByKey env (companyRealmId v) txnDate hbar
                   (targetWalletId v) toAccountId key)
                (\<lambda>exists.
                   if exists then ret (results @ [SKIPPED_QBO Transfer key])
                   else
                     andThen
                       (createQboTransfer env (companyRealmId v) (targetWalletId v)
                          toAccountId hbar key txnDate)
                       (\<lambda>created.
                          ret (results @
                            [CREATED Transfer (Some (target v))
                               (str_or toTracked ''External Wallet'') hbar txnDate key])))))"

text \<open>
  One iteration of \<open>for (const tx of txs)\<close>: the result is the \<open>results\<close> array after
  it, or the exception that leaves the loop.
\<close>

definition processTx ::
  "'w env \<Rightarrow> config \<Rightarrow> loop_vars \<Rightarrow> raw_tx \<Rightarrow> outcome list \<Rightarrow> ('w, outcome list) io" where
  "processTx env cfg v tx results s =
     (let net = netTinybarFor tx (target v) in
      if js_is_zero net then ret results s
      else
        let hbar = js_div_pos (Math_abs net) 100000000 in
        case toTxnDateFromConsensus (clock env (world s)) (consensus_timestamp tx) of
          Inl e \<Rightarrow> throw e s
        | Inr txnDate \<Rightarrow>
            let key = makeIdempotencyKey tx in
            case alreadyProcessedInMemory key s of
              (seen, s1) \<Rightarrow>
                if seen then ret (results @ [SKIPPED_MEMORY key]) s1
                else if js_gt_zero net then process_inbound env v hbar txnDate key results s1
                else process_outbound env cfg v tx hbar txnDate key results s1)"

fun process_all ::
  "'w env \<Rightarrow> config \<Rightarrow> loop_vars \<Rightarrow> raw_tx list \<Rightarrow> outcome list \<Rightarrow> ('w, outcome list) io" where
  "process_all env cfg v [] results = ret results"
| "process_all env cfg v (tx # txs) results =
     andThen (processTx env cfg v tx results) (\<lambda>results'. process_all env cfg v txs results')"

text \<open>
  What the handler does before the loop: the realm, the target account, the three
  ledger accounts and the page of 25 transactions.
\<close>

definition sync_setup ::
  "'w env \<Rightarrow> config \<Rightarrow> string option \<Rightarrow> ('w, loop_vars \<times> raw_tx list) io" where
  "sync_setup env cfg query_account =
     andThen (getCompanyRealmIdOrThrow env) (\<lambda>realm.
       let tgt = trim (str_or query_account (TARGET_HEDERA_ACCOUNT cfg)) in
       andThen (getOrCreateWalletBankAccount env realm tgt) (\<lambda>wallet.
         andThen (getOrCreateClearingAccount env realm) (\<lambda>clearing.
           andThen (getOrCreateExternalOutflowBank env realm) (\<lambda>outflow.
             andThen (fetchMirrorTransactionsForAccount env tgt 25) (\<lambda>data.
               case transactions data of
                 None \<Rightarrow> throw (TypeError ''txs is not iterable'')
               | Some txs \<Rightarrow>
                   ret (\<lparr>companyRealmId = realm, target = tgt, targetWalletId = wallet,
                         clearingId = clearing, externalOutflowId = outflow\<rparr>, txs))))))"

text \<open>
  The handler's \<open>try\<close> block, and the handler: the report (its rows are \<open>results\<close>) or,
  from the \<open>catch\<close>, status 500 with the exception.
\<close>

definition sync_body :: "'w env \<Rightarrow> config \<Rightarrow> string option \<Rightarrow> ('w, outcome list) io" where
  "sync_body env cfg query_account =
     andThen (sync_setup env cfg query_account) (\<lambda>(v, txs). process_all env cfg v txs [])"

datatype sync_response = Report "outcome list" | Status500 error

definition syncHederaToQbo ::
  "'w env \<Rightarrow> config \<Rightarrow> string option \<Rightarrow> 'w state \<Rightarrow> sync_response \<times> 'w state" where
  "syncHederaToQbo env cfg query_account s =
     (case sync_body env cfg query_account s of
        (Inl e, s') \<Rightarrow> (Status500 e, s')
      | (Inr results, s') \<Rightarrow> (Report results, s'))"


section \<open>A small backend to run the program against\<close>

text \<open>
  An in-memory ledger that answers as the QuickBooks API does: a query returns the
  stored records it selects, a create stores the record. \<open>faulty\<close> picks the requests
  it answers, with status 200, by a body that carries a \<open>Fault\<close>. The mirror node
  returns a fixed page, the clock a fixed time, the token a fixed realm.
\<close>

record ledger =
  l_accounts :: "string list"
  l_deposits :: "deposit_payload list"
  l_transfers :: "transfer_payload list"

definition empty_ledger :: ledger where
  "empty_ledger = \<lparr>l_accounts = [], l_deposits = [], l_transfers = []\<rparr>"

definition no_body :: qbo_body where
  "no_body = \<lparr>Fault = None, QueryResponse = None, Account = None\<rparr>"

definition fault_body :: qbo_body where
  "fault_body = \<lparr>Fault = Some ''{code:6000}'', QueryResponse = None, Account = None\<rparr>"

fun accounts_named :: "nat \<Rightarrow> string \<Rightarrow> string list \<Rightarrow> qbo_entity list" where
  "accounts_named i q [] = []"
| "accounts_named i q (n # ns) =
     (if account_find_query (qboEscape n) = q
      then \<lparr>ent_Id = Some (dec_string (Suc i)), PrivateNote = None\<rparr> # accounts_named (Suc i) q ns
      else accounts_named (Suc i) q ns)"

definition some_rows :: "qbo_entity list \<Rightarrow> qbo_entity list option" where
  "some_rows rows = (if rows = [] then None else Some rows)"

definition ledger_query :: "string \<Rightarrow> ledger \<Rightarrow> query_response" where
  "ledger_query q w =
     \<lparr>qr_Account = some_rows (take 1 (accounts_named 0 q (l_accounts w))),
      qr_Deposit = some_rows
        (map (\<lambda>p. \<lparr>ent_Id = None, PrivateNote = Some (dep_PrivateNote p)\<rparr>)
           (filter (\<lambda>p. deposit_dedupe_query (dep_TxnDate p) = q) (l_deposits w))),
      qr_Transfer = some_rows
        (map (\<lambda>p. \<lparr>ent_Id = None, PrivateNote = Some (tr_PrivateNote p)\<rparr>)
           (filter (\<lambda>p. transfer_dedupe_query (tr_TxnDate p) = q) (l_transfers w)))\<rparr>"

definition ledger_api :: "(qbo_request \<Rightarrow> bool) \<Rightarrow> qbo_request \<Rightarrow> ledger \<Rightarrow> (error + qbo_body) \<times> ledger" where
  "ledger_api faulty r w =
     (if faulty r then (Inr fault_body, w)
      else case r of
        Query realm q \<Rightarrow> (Inr (no_body\<lparr>QueryResponse := Some (ledger_query q w)\<rparr>), w)
      | PostAccount realm p \<Rightarrow>
          (Inr (no_body\<lparr>Account :=
                  Some \<lparr>ent_Id = Some (dec_string (Suc (length (l_accounts w)))),
                        PrivateNote = None\<rparr>\<rparr>),
           w\<lparr>l_accounts := l_accounts w @ [acc_Name p]\<rparr>)
      | PostDeposit realm p \<Rightarrow> (Inr no_body, w\<lparr>l_deposits := l_deposits w @ [p]\<rparr>)
      | PostTransfer realm p \<Rightarrow> (Inr no_body, w\<lparr>l_transfers := l_transfers w @ [p]\<rparr>))"

definition ledger_env :: "(qbo_request \<Rightarrow> bool) \<Rightarrow> raw_tx list \<Rightarrow> ledger env" where
  "ledger_env faulty page =
     \<lparr>makeApiCall = ledger_api faulty,
      fetch_mirror = (\<lambda>hederaId limit w.
         (Inr \<lparr>ok = True, status = 200, json = Inr \<lparr>transactions = Some page\<rparr>\<rparr>, w)),
      getToken = (\<lambda>w. Some \<lparr>tok_realmId = Some ''4620816365''\<rparr>),
      createToken = (\<lambda>url w. (Inr (), w)),
      clock = (\<lambda>w. 1762128000000)\<rparr>"

definition never :: "qbo_request \<Rightarrow> bool" where
  "never r = False"

definition start :: "ledger state" where
  "start = \<lparr>world = empty_ledger, seenKeys = [], realmId = None, calls = []\<rparr>"

text \<open>The state of a fresh process whose ledger already holds the three accounts of the
  set-up, in the order the handler creates them.\<close>

definition ready :: "ledger state" where
  "ready = start\<lparr>world := empty_ledger\<lparr>l_accounts :=
     [''Hedera 0.0.100'', ''Hedera Clearing'', ''External Hedera Outflow'']\<rparr>\<rparr>"

definition demo_config :: config where
  "demo_config = \<lparr>TARGET_HEDERA_ACCOUNT = ''0.0.100'',
                  TRACKED_HEDERA_ACCOUNTS = [''0.0.100'', ''0.0.200'']\<rparr>"

text \<open>The transactions of the scenarios: a deposit, a transfer between tracked accounts,
  an outflow to an untracked account.\<close>

definition tx_deposit :: raw_tx where
  "tx_deposit =
     \<lparr>transaction_id = Some ''0.0.1-1-1'', consensus_timestamp = Some ''1700000000.0'',
      transfers = Some [\<lparr>e_account = Some ''0.0.100'', e_amount = JNumber (Fin 500000000)\<rparr>]\<rparr>"

definition tx_internal :: raw_tx where
  "tx_internal =
     \<lparr>transaction_id = Some ''0.0.1-2-2'', consensus_timestamp = Some ''1700000100.0'',
      transfers = Some [\<lparr>e_account = Some ''0.0.100'', e_amount = JNumber (Fin (- 300000000))\<rparr>,
                        \<lparr>e_account = Some ''0.0.200'', e_amount = JNumber (Fin 300000000)\<rparr>]\<rparr>"

definition tx_outflow :: raw_tx where
  "tx_outflow =
     \<lparr>transaction_id = Some ''0.0.1-3-3'', consensus_timestamp = Some ''1700000200.0'',
      transfers = Some [\<lparr>e_account = Some ''0.0.100'', e_amount = JNumber (Fin (- 300000000))\<rparr>,
                        \<lparr>e_account = Some ''0.0.999'', e_amount = JNumber (Fin 300000000)\<rparr>]\<rparr>"


section \<open>Notions used to state the properties\<close>

text \<open>The calls made between two states, and the calls that write an accounting record.\<close>

definition issued :: "'w state \<Rightarrow> 'w state \<Rightarrow> call list" where
  "issued s s' = drop (length (calls s)) (calls s')"

fun is_record_write :: "call \<Rightarrow> bool" where
  "is_record_write (QboCall (PostDeposit realm p)) = True"
| "is_record_write (QboCall (PostTransfer realm p)) = True"
| "is_record_write c = False"

fun is_query :: "call \<Rightarrow> bool" where
  "is_query (QboCall (Query realm q)) = True"
| "is_query c = False"

text \<open>A transaction whose tracked-account entries do not sum to zero.\<close>

definition moves :: "string \<Rightarrow> raw_tx \<Rightarrow> bool" where
  "moves tgt tx = (\<not> js_is_zero (netTinybarFor tx tgt))"




text \<open>
  A counterparty entry that names a tracked account: its account is non-empty, is not
  the target and is in the tracked set. The amount plays no part.
\<close>

definition tracked_counterparty :: "config \<Rightarrow> string \<Rightarrow> transfer_entry \<Rightarrow> bool" where
  "tracked_counterparty cfg tgt e =
     (case e_account e of
        None \<Rightarrow> False
      | Some a \<Rightarrow> a \<noteq> [] \<and> a \<noteq> tgt \<and> a \<in> set (TRACKED_HEDERA_ACCOUNTS cfg))"

text \<open>A non-empty text of decimal digits, and its value.\<close>

definition is_digit :: "char \<Rightarrow> bool" where
  "is_digit c = (c \<in> set ''0123456789'')"

definition decimal_value :: "string \<Rightarrow> nat" where
  "decimal_value ds = foldl (\<lambda>n c. n * 10 + (of_char c - 48)) 0 ds"

text \<open>The candidates a query response holds for each kind of record.\<close>

definition deposit_candidates :: "qbo_body \<Rightarrow> qbo_entity list" where
  "deposit_candidates data =
     (case QueryResponse data of
        None \<Rightarrow> []
      | Some qr \<Rightarrow> (case qr_Deposit qr of None \<Rightarrow> [] | Some cs \<Rightarrow> cs))"

definition transfer_candidates :: "qbo_body \<Rightarrow> qbo_entity list" where
  "transfer_candidates data =
     (case QueryResponse data of
        None \<Rightarrow> []
      | Some qr \<Rightarrow> (case qr_Transfer qr of None \<Rightarrow> [] | Some cs \<Rightarrow> cs))"

text \<open>
  An operation that only talks to the backend: it leaves \<open>seenKeys\<close> and \<open>realmId\<close>
  alone and appends to the log calls that satisfy \<open>P\<close>.
\<close>


definition backend_only :: "(call \<Rightarrow> bool) \<Rightarrow> ('w, 'a) io \<Rightarrow> bool" where
  "backend_only P m =
     (\<forall>s. case m s of
            (r, s') \<Rightarrow> seenKeys s' = seenKeys s \<and> realmId s' = realmId s \<and>
                       (\<exists>cs. calls s' = calls s @ cs \<and> list_all P cs))"

fun is_account_write :: "call \<Rightarrow> bool" where
  "is_account_write (QboCall (PostAccount realm p)) = True"
| "is_account_write c = False"

text \<open>Loop constants as a setup against the small backend leaves them, and two ways
  for that backend to misbehave.\<close>

definition demo_vars :: loop_vars where
  "demo_vars = \<lparr>companyRealmId = ''4620816365'', target = ''0.0.100'',
                targetWalletId = Some ''1'', clearingId = Some ''2'',
                externalOutflowId = Some ''3''\<rparr>"

fun rejects_deposits :: "qbo_request \<Rightarrow> bool" where
  "rejects_deposits (PostDeposit realm p) = True"
| "rejects_deposits r = False"

fun faults_on_queries :: "qbo_request \<Rightarrow> bool" where
  "faults_on_queries (Query realm q) = True"
| "faults_on_queries r = False"

text \<open>The small ledger after the deposit of the scenarios was recorded.\<close>

definition one_deposit :: "ledger state" where
  "one_deposit =
     start\<lparr>world := empty_ledger\<lparr>l_deposits :=
       [\<lparr>dep_TxnDate = ''2023-11-14'', dep_DepositToAccountRef = Some ''1'',
         dep_PrivateNote = ''hedera:0.0.1-1-1:1700000000.0'', dep_Line_Amount = Fin 5,
         dep_Line_AccountRef = Some ''2''\<rparr>]\<rparr>\<rparr>"





text \<open>A deposit whose consensus timestamp lies beyond the range of \<open>Date\<close>.\<close>

definition tx_far :: raw_tx where
  "tx_far =
     \<lparr>transaction_id = Some ''0.0.1-5-5'', consensus_timestamp = Some ''8700000000000.0'',
      transfers = Some [\<lparr>e_account = Some ''0.0.100'', e_amount = JNumber (Fin 500000000)\<rparr>]\<rparr>"

section \<open>Basic facts\<close>

declare dec_string.simps [simp del]

subsection \<open>Integers up to \<open>2 ^ 53\<close> are doubles\<close>

lemma round_half_even_int [simp]: "round_half_even (of_int k) = k"
  by (simp add: round_half_even_def)

lemma ulp_search_lower: "- 1074 \<le> ulp_search n x"
  by (induction n) auto

lemma ulp_search_witness: "ulp_search n x = - 1074 \<or> 2 powi (ulp_search n x + 52) \<le> x"
  by (induction n) (auto simp: algebra_simps)

lemma powi2_le_D: "(2::rat) powi a \<le> 2 powi b \<Longrightarrow> a \<le> b"
  using power_int_strict_increasing [of b a "2::rat"] by (cases "a \<le> b") auto

lemma ulp_search_upper:
  assumes "x \<le> 2 ^ 53"
  shows "ulp_search n x \<le> 1"
proof -
  from ulp_search_witness [of n x] show ?thesis
  proof
    assume "ulp_search n x = - 1074" then show ?thesis by simp
  next
    assume "2 powi (ulp_search n x + 52) \<le> x"
    then have "(2::rat) powi (ulp_search n x + 52) \<le> 2 powi 53" using assms by simp
    from powi2_le_D [OF this] show ?thesis by simp
  qed
qed

lemma round_double_int:
  assumes "\<bar>n\<bar> \<le> 2 ^ 53"
  shows "round_double (of_int n) = Fin (of_int n)"
proof -
  let ?x = "of_int n :: rat"
  let ?j = "ulp_search 2045 \<bar>?x\<bar>"
  have ax: "\<bar>?x\<bar> \<le> 2 ^ 53"
  proof -
    have "\<bar>?x\<bar> = of_int \<bar>n\<bar>" by simp
    also have "\<dots> \<le> of_int (2 ^ 53)" using assms by (simp only: of_int_le_iff)
    finally show ?thesis by simp
  qed
  have j1: "?j \<le> 1" by (rule ulp_search_upper [OF ax])
  have j0: "- 1074 \<le> ?j" by (rule ulp_search_lower)
  have "\<exists>k. ?x / 2 powi ?j = of_int k"
  proof (cases "?j \<le> 0")
    case True
    then have "(2::rat) powi ?j = inverse (2 ^ nat (- ?j))"
      by (auto simp: power_int_def power_one_over inverse_eq_divide)
    then have "?x / 2 powi ?j = of_int (n * 2 ^ nat (- ?j))"
      by (simp add: field_simps)
    then show ?thesis by blast
  next
    case False
    with j1 have j: "?j = 1" by simp
    from ulp_search_witness [of 2045 "\<bar>?x\<bar>"] j have "(2::rat) ^ 53 \<le> \<bar>?x\<bar>" by simp
    with ax have "\<bar>?x\<bar> = 2 ^ 53" by simp
    then have "of_int \<bar>n\<bar> = (of_int (2 ^ 53) :: rat)" by simp
    then have "\<bar>n\<bar> = 2 ^ 53" by (simp only: of_int_eq_iff)
    then have "n = 2 ^ 53 \<or> n = - (2 ^ 53)" by linarith
    then have "?x / 2 powi ?j = of_int (n div 2)" unfolding j by auto
    then show ?thesis by blast
  qed
  then obtain k where k: "?x / 2 powi ?j = of_int k" by blast
  have pos: "(2::rat) powi ?j \<noteq> 0" by simp
  have y: "of_int (round_half_even (?x / ulp ?x)) * ulp ?x = ?x"
    unfolding ulp_def k round_half_even_int using k pos by (simp add: field_simps)
  have "\<bar>?x\<bar> < 2 ^ 1024" using ax by (rule order_le_less_trans) simp
  then show ?thesis unfolding round_double_def Let_def y by auto
qed

lemma round_double_numeral [simp]:
  "numeral k \<le> (2::int) ^ 53 \<Longrightarrow> round_double (numeral k) = Fin (numeral k)"
  "numeral k \<le> (2::int) ^ 53 \<Longrightarrow> round_double (- numeral k) = Fin (- numeral k)"
  "round_double 0 = Fin 0" "round_double 1 = Fin 1"
  using round_double_int [of "numeral k"] round_double_int [of "- numeral k"]
    round_double_int [of 0] round_double_int [of 1]
  by simp_all

lemmas num_defs = StringToNumber_def trim_def isWhiteSpace_def StrDecimalLiteral_def
  unsigned_decimal_def mantissa_def exponent_def isExpChar_def number_in_base_def digitval_def
  scale10_def round_double_numeral prefixed_def before_dot_def truthy_str_def str_or_def

lemmas date_defs = slice_0_10_def iso_year_def digit_char_def trunc_def pad2_def pad3_def
  pad4_def pad6_def

lemmas hedera_defs = netTinybarFor_def transfers_or_empty_def amount_number_def
  otherAccountsInTransfer_def makeIdempotencyKey_def

lemmas io_defs = ret_def throw_def andThen_def api_def qboQuery_def

lemmas qbo_defs = qboEscape_def transfer_dedupe_query_def deposit_dedupe_query_def
  collapse_ws_def qboExistsTransferByKey_def qboExistsDepositByKey_def account_find_query_def
  getOrCreateQboAccount_def hederaWalletAccountName_def getOrCreateWalletBankAccount_def
  getOrCreateClearingAccount_def getOrCreateExternalOutflowBank_def createQboDeposit_def
  createQboTransfer_def

lemmas ledger_defs = empty_ledger_def no_body_def fault_body_def some_rows_def ledger_query_def
  ledger_api_def ledger_env_def never_def start_def demo_config_def dec_string.simps
  digit_char_def

lemmas tx_defs = tx_deposit_def tx_internal_def tx_outflow_def tx_far_def

subsection \<open>The cases of the loop body\<close>

lemma processTx_zero:
  "js_is_zero (netTinybarFor tx (target v)) \<Longrightarrow>
   processTx env cfg v tx results s = (Inr results, s)"
  by (simp add: processTx_def ret_def)

lemma processTx_date_error:
  "\<not> js_is_zero (netTinybarFor tx (target v)) \<Longrightarrow>
   toTxnDateFromConsensus (clock env (world s)) (consensus_timestamp tx) = Inl e \<Longrightarrow>
   processTx env cfg v tx results s = (Inl e, s)"
  by (simp add: processTx_def throw_def)

lemma processTx_seen:
  "\<not> js_is_zero (netTinybarFor tx (target v)) \<Longrightarrow>
   toTxnDateFromConsensus (clock env (world s)) (consensus_timestamp tx) = Inr d \<Longrightarrow>
   makeIdempotencyKey tx \<in> set (seenKeys s) \<Longrightarrow>
   processTx env cfg v tx results s =
     (Inr (results @ [SKIPPED_MEMORY (makeIdempotencyKey tx)]), s)"
  by (simp add: processTx_def ret_def alreadyProcessedInMemory_def Let_def)

lemma processTx_inbound:
  "\<not> js_is_zero (netTinybarFor tx (target v)) \<Longrightarrow>
   toTxnDateFromConsensus (clock env (world s)) (consensus_timestamp tx) = Inr d \<Longrightarrow>
   makeIdempotencyKey tx \<notin> set (seenKeys s) \<Longrightarrow>
   js_gt_zero (netTinybarFor tx (target v)) \<Longrightarrow>
   processTx env cfg v tx results s =
     process_inbound env v (js_div_pos (Math_abs (netTinybarFor tx (target v))) 100000000) d
       (makeIdempotencyKey tx) results (s\<lparr>seenKeys := seenKeys s @ [makeIdempotencyKey tx]\<rparr>)"
  by (simp add: processTx_def alreadyProcessedInMemory_def Let_def)

lemma processTx_outbound:
  "\<not> js_is_zero (netTinybarFor tx (target v)) \<Longrightarrow>
   toTxnDateFromConsensus (clock env (world s)) (consensus_timestamp tx) = Inr d \<Longrightarrow>
   makeIdempotencyKey tx \<notin> set (seenKeys s) \<Longrightarrow>
   \<not> js_gt_zero (netTinybarFor tx (target v)) \<Longrightarrow>
   processTx env cfg v tx results s =
     process_outbound env cfg v tx
       (js_div_pos (Math_abs (netTinybarFor tx (target v))) 100000000) d
       (makeIdempotencyKey tx) results (s\<lparr>seenKeys := seenKeys s @ [makeIdempotencyKey tx]\<rparr>)"
  by (simp add: processTx_def alreadyProcessedInMemory_def Let_def)

section \<open>The idempotency key\<close>

lemma append_sep_right:
  "c \<notin> set a \<Longrightarrow> c \<notin> set b \<Longrightarrow> x @ c # a = y @ c # b \<Longrightarrow> x = y \<and> a = b"
  by (induction x arbitrary: y) (auto simp: Cons_eq_append_conv append_eq_Cons_conv)

lemma append_sep_left:
  "c \<notin> set x \<Longrightarrow> c \<notin> set y \<Longrightarrow> x @ c # a = y @ c # b \<Longrightarrow> x = y \<and> a = b"
  by (induction x arbitrary: y) (auto simp: Cons_eq_append_conv append_eq_Cons_conv)

text \<open>
  C4, as stated, fails: the key is a plain concatenation, so a colon inside a component
  moves the boundary. The transactions with id \<open>0.0.1-1-1:5\<close>, timestamp \<open>6.0\<close> and with
  id \<open>0.0.1-1-1\<close>, timestamp \<open>5:6.0\<close> differ in both components and get the same key.
\<close>

theorem C4_distinct_pairs_same_key:
  "(Some ''0.0.1-1-1:5'', Some ''6.0'') \<noteq> (Some ''0.0.1-1-1'', Some ''5:6.0'') \<and>
   makeIdempotencyKey
     \<lparr>transaction_id = Some ''0.0.1-1-1:5'', consensus_timestamp = Some ''6.0'',
      transfers = None\<rparr>
   = makeIdempotencyKey
       \<lparr>transaction_id = Some ''0.0.1-1-1'', consensus_timestamp = Some ''5:6.0'',
        transfers = None\<rparr>"
  by (simp add: makeIdempotencyKey_def str_or_def)

text \<open>
  C4, amended: \<open>makeIdempotencyKey\<close> is a function of the transaction (the same input
  gives the same key) that returns exactly \<open>hedera:<transaction_id>:<consensus_timestamp>\<close>,
  a missing or empty field giving an empty component; and two transactions with the same
  key have the same two components, provided neither timestamp contains a colon, or
  neither transaction id does.
\<close>

theorem C4_key_format_and_injective:
  "makeIdempotencyKey tx =
     ''hedera:'' @ str_or (transaction_id tx) [] @ '':'' @ str_or (consensus_timestamp tx) []
   \<and> ((CHR '':'' \<notin> set (str_or (consensus_timestamp tx1) []) \<and>
        CHR '':'' \<notin> set (str_or (consensus_timestamp tx2) [])) \<or>
       (CHR '':'' \<notin> set (str_or (transaction_id tx1) []) \<and>
        CHR '':'' \<notin> set (str_or (transaction_id tx2) []))
       \<longrightarrow> makeIdempotencyKey tx1 = makeIdempotencyKey tx2
       \<longrightarrow> str_or (transaction_id tx1) [] = str_or (transaction_id tx2) [] \<and>
           str_or (consensus_timestamp tx1) [] = str_or (consensus_timestamp tx2) [])"
proof -
  have inj: "str_or (transaction_id tx1) [] = str_or (transaction_id tx2) [] \<and>
             str_or (consensus_timestamp tx1) [] = str_or (consensus_timestamp tx2) []"
    if k: "makeIdempotencyKey tx1 = makeIdempotencyKey tx2"
    and c: "(CHR '':'' \<notin> set (str_or (consensus_timestamp tx1) []) \<and>
             CHR '':'' \<notin> set (str_or (consensus_timestamp tx2) [])) \<or>
            (CHR '':'' \<notin> set (str_or (transaction_id tx1) []) \<and>
             CHR '':'' \<notin> set (str_or (transaction_id tx2) []))"
  proof -
    from k have e: "str_or (transaction_id tx1) [] @ CHR '':'' # str_or (consensus_timestamp tx1) []
        = str_or (transaction_id tx2) [] @ CHR '':'' # str_or (consensus_timestamp tx2) []"
      by (simp add: makeIdempotencyKey_def)
    from c show ?thesis
    proof
      assume "CHR '':'' \<notin> set (str_or (consensus_timestamp tx1) []) \<and>
              CHR '':'' \<notin> set (str_or (consensus_timestamp tx2) [])"
      then show ?thesis using append_sep_right [OF _ _ e] by blast
    next
      assume "CHR '':'' \<notin> set (str_or (transaction_id tx1) []) \<and>
              CHR '':'' \<notin> set (str_or (transaction_id tx2) [])"
      then show ?thesis using append_sep_left [OF _ _ e] by blast
    qed
  qed
  show ?thesis using inj by (simp add: makeIdempotencyKey_def)
qed

theorem C4_key_format_and_injective_witness:
  "makeIdempotencyKey tx_deposit = ''hedera:0.0.1-1-1:1700000000.0'' \<and>
   makeIdempotencyKey tx_deposit \<noteq> makeIdempotencyKey tx_internal"
proof -
  have "CHR '':'' \<notin> set (str_or (consensus_timestamp tx_deposit) []) \<and>
        CHR '':'' \<notin> set (str_or (consensus_timestamp tx_internal) [])"
    by (simp add: tx_defs str_or_def)
  moreover have "str_or (transaction_id tx_deposit) [] \<noteq> str_or (transaction_id tx_internal) []"
    by (simp add: tx_defs str_or_def)
  ultimately show ?thesis
    using C4_key_format_and_injective [of tx_deposit tx_deposit tx_internal]
    by (auto simp: tx_defs str_or_def)
qed

section \<open>What each operation calls\<close>

lemma backend_onlyD:
  "backend_only P m \<Longrightarrow> m s = (r, s') \<Longrightarrow>
   seenKeys s' = seenKeys s \<and> realmId s' = realmId s \<and>
   (\<exists>cs. calls s' = calls s @ cs \<and> list_all P cs)"
  unfolding backend_only_def by (auto split: prod.splits)

lemma backend_only_mono:
  "backend_only P m \<Longrightarrow> (\<And>c. P c \<Longrightarrow> Q c) \<Longrightarrow> backend_only Q m"
  unfolding backend_only_def list_all_iff by (fastforce split: prod.splits)

lemma backend_only_ret [intro!]: "backend_only P (ret a)"
  by (simp add: backend_only_def ret_def)

lemma backend_only_throw [intro!]: "backend_only P (throw e)"
  by (simp add: backend_only_def throw_def)

lemma backend_only_api: "P (QboCall r) \<Longrightarrow> backend_only P (api env r)"
  by (simp add: backend_only_def api_def split: prod.splits)

lemma backend_only_andThen:
  assumes m: "backend_only P m"
    and f: "\<And>a s s'. m s = (Inr a, s') \<Longrightarrow> backend_only P (f a)"
  shows "backend_only P (andThen m f)"
  unfolding backend_only_def
proof (intro allI)
  fix s
  obtain r s1 where ms: "m s = (r, s1)" by (cases "m s")
  from backend_onlyD [OF m ms] obtain cs where
    k1: "seenKeys s1 = seenKeys s" and r1: "realmId s1 = realmId s"
    and c1: "calls s1 = calls s @ cs" and p1: "list_all P cs" by blast
  show "case andThen m f s of
          (r, s') \<Rightarrow> seenKeys s' = seenKeys s \<and> realmId s' = realmId s \<and>
                     (\<exists>cs. calls s' = calls s @ cs \<and> list_all P cs)"
  proof (cases r)
    case (Inl e)
    then show ?thesis using ms k1 r1 c1 p1 by (simp add: andThen_def)
  next
    case (Inr a)
    obtain r2 s2 where fs: "f a s1 = (r2, s2)" by (cases "f a s1")
    from f [of s a s1] ms Inr have "backend_only P (f a)" by simp
    from backend_onlyD [OF this fs] obtain cs2 where
      "seenKeys s2 = seenKeys s1" "realmId s2 = realmId s1"
      "calls s2 = calls s1 @ cs2" "list_all P cs2" by blast
    then show ?thesis using ms Inr fs k1 r1 c1 p1 by (simp add: andThen_def)
  qed
qed

lemma backend_only_qboQuery: "backend_only is_query (qboQuery env realm q)"
  by (simp add: qboQuery_def backend_only_api)

lemma backend_only_existsDeposit:
  "backend_only is_query (qboExistsDepositByKey env realm d a f t k)"
  unfolding qboExistsDepositByKey_def Let_def
  by (intro backend_only_andThen backend_only_qboQuery) auto

lemma backend_only_existsTransfer:
  "backend_only is_query (qboExistsTransferByKey env realm d a f t k)"
  unfolding qboExistsTransferByKey_def Let_def
  by (intro backend_only_andThen backend_only_qboQuery) auto

lemma backend_only_getOrCreate:
  "backend_only (\<lambda>c. is_query c \<or> is_account_write c)
     (getOrCreateQboAccount env realm name ty sub)"
  unfolding getOrCreateQboAccount_def Let_def
  apply (rule backend_only_andThen)
   apply (rule backend_only_mono [OF backend_only_qboQuery], simp)
  apply (auto intro!: backend_only_andThen backend_only_api split: option.splits)
  done

lemma backend_only_createDeposit:
  "backend_only (\<lambda>c. c = QboCall (PostDeposit realm
      \<lparr>dep_TxnDate = d, dep_DepositToAccountRef = t, dep_PrivateNote = k,
       dep_Line_Amount = toFixed2 a, dep_Line_AccountRef = src\<rparr>))
     (createQboDeposit env realm t src a k d)"
  unfolding createQboDeposit_def
  by (auto intro!: backend_only_andThen backend_only_api split: option.splits)

lemma backend_only_createTransfer:
  "backend_only (\<lambda>c. c = QboCall (PostTransfer realm
      \<lparr>tr_TxnDate = d, tr_FromAccountRef = f, tr_ToAccountRef = t,
       tr_Amount = toFixed2 a, tr_PrivateNote = k\<rparr>))
     (createQboTransfer env realm f t a k d)"
  unfolding createQboTransfer_def
  by (auto intro!: backend_only_andThen backend_only_api split: option.splits)

lemma backend_only_fetch:
  "backend_only (\<lambda>c. c = MirrorCall h n) (fetchMirrorTransactionsForAccount env h n)"
  by (auto simp: backend_only_def fetchMirrorTransactionsForAccount_def Let_def
      split: prod.splits sum.splits)

lemma backend_only_realm: "backend_only P (getCompanyRealmIdOrThrow env)"
  by (auto simp: backend_only_def getCompanyRealmIdOrThrow_def ret_def throw_def
      split: option.splits)


lemma issued_append: "calls s' = calls s @ cs \<Longrightarrow> issued s s' = cs"
  by (simp add: issued_def)

lemma issued_trans:
  "calls s1 = calls s @ cs \<Longrightarrow> calls s2 = calls s1 @ ds \<Longrightarrow> issued s s2 = cs @ ds"
  by (simp add: issued_def)

lemma api_calls:
  "api env r s = (x, s') \<Longrightarrow>
   calls s' = calls s @ [QboCall r] \<and> seenKeys s' = seenKeys s \<and> realmId s' = realmId s"
  by (auto simp: api_def split: prod.splits)


lemma existsTransfer_calls:
  "qboExistsTransferByKey env realm d a f t k s = (x, s') \<Longrightarrow>
   calls s' = calls s @ [QboCall (Query realm (transfer_dedupe_query d))] \<and>
   seenKeys s' = seenKeys s \<and> realmId s' = realmId s"
  by (auto simp: qboExistsTransferByKey_def qboQuery_def andThen_def ret_def Let_def
      dest!: api_calls split: prod.splits sum.splits if_splits)


lemma createTransfer_calls:
  "createQboTransfer env realm f t a k d s = (x, s') \<Longrightarrow>
   calls s' = calls s @ [QboCall (PostTransfer realm
      \<lparr>tr_TxnDate = d, tr_FromAccountRef = f, tr_ToAccountRef = t,
       tr_Amount = toFixed2 a, tr_PrivateNote = k\<rparr>)] \<and>
   seenKeys s' = seenKeys s \<and> realmId s' = realmId s"
  by (auto simp: createQboTransfer_def andThen_def ret_def throw_def
      dest!: api_calls split: prod.splits sum.splits option.splits)


lemma process_transfer_cases:
  assumes "andThen
                (qboExistsTransferByKey env realm d hbar from to key)
                (\<lambda>exists.
                   if exists then ret (results @ [SKIPPED_QBO Transfer key])
                   else
                     andThen
                       (createQboTransfer env realm from to hbar key d)
                       (\<lambda>created. ret (results @ [CREATED Transfer f t hbar d key]))) s = (r, s')"
  shows "(\<exists>e. qboExistsTransferByKey env realm d hbar from to key s = (Inl e, s') \<and> r = Inl e)
       \<or> (qboExistsTransferByKey env realm d hbar from to key s = (Inr True, s') \<and>
           r = Inr (results @ [SKIPPED_QBO Transfer key]))
       \<or> (\<exists>s1 x. qboExistsTransferByKey env realm d hbar from to key s = (Inr False, s1) \<and>
              createQboTransfer env realm from to hbar key d s1 = (x, s') \<and>
              r = (case x of Inl e \<Rightarrow> Inl e
                   | Inr b \<Rightarrow> Inr (results @ [CREATED Transfer f t hbar d key])))"
  using assms
  by (auto simp: andThen_def ret_def split: prod.splits sum.splits if_splits)

section \<open>What a run does to the process state\<close>



lemma backend_only_inbound:
  "backend_only (\<lambda>c. True) (process_inbound env v hbar d key results)"
  unfolding process_inbound_def
  by (intro backend_only_andThen backend_only_mono [OF backend_only_existsDeposit])
     (auto intro!: backend_only_andThen backend_only_mono [OF backend_only_createDeposit])

lemma backend_only_outbound:
  "backend_only (\<lambda>c. True) (process_outbound env cfg v tx hbar d key results)"
  unfolding process_outbound_def Let_def getOrCreateWalletBankAccount_def
  by (intro backend_only_andThen)
     (auto intro!: backend_only_andThen backend_only_mono [OF backend_only_createTransfer]
        backend_only_mono [OF backend_only_existsTransfer]
        backend_only_mono [OF backend_only_getOrCreate])

lemma processTx_state:
  assumes "processTx env cfg v tx results s = (r, s')"
  shows "set (seenKeys s) \<subseteq> set (seenKeys s') \<and> realmId s' = realmId s \<and>
         (\<exists>cs. calls s' = calls s @ cs)"
proof -
  have *: "set (seenKeys s) \<subseteq> set (seenKeys s') \<and> realmId s' = realmId s \<and>
         (\<exists>cs. calls s' = calls s @ cs)"
    if "m (s\<lparr>seenKeys := seenKeys s @ [k]\<rparr>) = (r, s')" "backend_only (\<lambda>c. True) m"
    for m :: "('a, outcome list) io" and k
    using backend_onlyD [OF that(2) that(1)] by auto
  show ?thesis
  proof (cases "js_is_zero (netTinybarFor tx (target v))")
    case True
    then show ?thesis using assms by (simp add: processTx_zero)
  next
    case nz: False
    show ?thesis
    proof (cases "toTxnDateFromConsensus (clock env (world s)) (consensus_timestamp tx)")
      case (Inl e)
      then show ?thesis using assms nz by (simp add: processTx_date_error)
    next
      case (Inr d)
      show ?thesis
      proof (cases "makeIdempotencyKey tx \<in> set (seenKeys s)")
        case True
        then show ?thesis using assms nz Inr by (simp add: processTx_seen)
      next
        case False
        then show ?thesis
          using assms nz Inr * [OF _ backend_only_inbound] * [OF _ backend_only_outbound]
          by (cases "js_gt_zero (netTinybarFor tx (target v))")
             (simp_all add: processTx_inbound processTx_outbound)
      qed
    qed
  qed
qed

lemma processTx_marks:
  assumes "processTx env cfg v tx results s = (r, s')"
    and "\<not> js_is_zero (netTinybarFor tx (target v))"
    and "toTxnDateFromConsensus (clock env (world s)) (consensus_timestamp tx) = Inr d"
  shows "makeIdempotencyKey tx \<in> set (seenKeys s')"
proof (cases "makeIdempotencyKey tx \<in> set (seenKeys s)")
  case True
  then show ?thesis using processTx_state [OF assms(1)] by auto
next
  case False
  have *: "makeIdempotencyKey tx \<in> set (seenKeys s')"
    if "m (s\<lparr>seenKeys := seenKeys s @ [makeIdempotencyKey tx]\<rparr>) = (r, s')"
       "backend_only (\<lambda>c. True) m"
    for m :: "('a, outcome list) io"
    using backend_onlyD [OF that(2) that(1)] by auto
  show ?thesis
    using assms False * [OF _ backend_only_inbound] * [OF _ backend_only_outbound]
    by (cases "js_gt_zero (netTinybarFor tx (target v))")
       (simp_all add: processTx_inbound processTx_outbound)
qed

lemma process_all_state:
  "process_all env cfg v txs results s = (r, s') \<Longrightarrow>
   set (seenKeys s) \<subseteq> set (seenKeys s') \<and> realmId s' = realmId s \<and>
   (\<exists>cs. calls s' = calls s @ cs)"
proof (induction txs arbitrary: results s)
  case Nil
  then show ?case by (simp add: ret_def)
next
  case (Cons tx txs)
  obtain r1 s1 where p: "processTx env cfg v tx results s = (r1, s1)"
    by (cases "processTx env cfg v tx results s")
  note st = processTx_state [OF p]
  show ?case
  proof (cases r1)
    case (Inl e)
    then show ?thesis using Cons.prems p st by (simp add: andThen_def)
  next
    case (Inr rs)
    then have "process_all env cfg v txs rs s1 = (r, s')"
      using Cons.prems p by (simp add: andThen_def)
    from Cons.IH [OF this] st show ?thesis by auto
  qed
qed

lemma backend_only_setup:
  "backend_only (\<lambda>c. \<not> is_record_write c) (sync_setup env cfg q)"
  unfolding sync_setup_def Let_def getOrCreateWalletBankAccount_def
    getOrCreateClearingAccount_def getOrCreateExternalOutflowBank_def
  apply (intro backend_only_andThen backend_only_realm)
      apply (rule backend_only_mono [OF backend_only_getOrCreate])
  subgoal for _ _ _ c by (cases c rule: is_record_write.cases) auto
     apply (rule backend_only_mono [OF backend_only_getOrCreate])
  subgoal for _ _ _ _ _ _ c by (cases c rule: is_record_write.cases) auto
    apply (rule backend_only_mono [OF backend_only_getOrCreate])
  subgoal for _ _ _ _ _ _ _ _ _  c by (cases c rule: is_record_write.cases) auto
   apply (rule backend_only_mono [OF backend_only_fetch])
   apply simp
  apply (auto split: option.splits)
  done

lemma sync_state:
  assumes "syncHederaToQbo env cfg q s = (resp, s')"
  shows "set (seenKeys s) \<subseteq> set (seenKeys s') \<and> realmId s' = realmId s"
proof -
  obtain r0 s0 where su: "sync_setup env cfg q s = (r0, s0)" by (cases "sync_setup env cfg q s")
  note b = backend_onlyD [OF backend_only_setup su]
  show ?thesis
  proof (cases r0)
    case (Inl e)
    then show ?thesis using assms su b
      by (auto simp: syncHederaToQbo_def sync_body_def andThen_def)
  next
    case (Inr x)
    obtain v txs where x: "x = (v, txs)" by (cases x)
    obtain r1 s1 where pa: "process_all env cfg v txs [] s0 = (r1, s1)"
      by (cases "process_all env cfg v txs [] s0")
    from process_all_state [OF pa] b assms su Inr x pa show ?thesis
      by (auto simp: syncHederaToQbo_def sync_body_def andThen_def split: sum.splits)
  qed
qed

section \<open>Evaluating dates\<close>

declare toISOString.simps(2) [simp del]

lemma toISOString_valid: "\<exists>str. toISOString (TimeValue t) = Inr str"
  by (simp add: toISOString.simps Let_def split: prod.splits)

lemma today_no_error: "slice_0_10 (toISOString (TimeValue t)) \<noteq> Inl e"
  using toISOString_valid [of t] by (auto simp: slice_0_10_def)

lemma civil_from_days_eval:
  assumes "z = days + 719468" "era = z div 146097" "doe = z mod 146097"
      "yoe = (doe - doe div 1460 + doe div 36524 - doe div 146096) div 365"
      "doy = doe - (365 * yoe + yoe div 4 - yoe div 100)"
      "mp = (5 * doy + 2) div 153"
      "d = doy - (153 * mp + 2) div 5 + 1"
      "m = (if mp < 10 then mp + 3 else mp - 9)"
      "y = yoe + era * 400 + (if m \<le> 2 then 1 else 0)"
  shows "civil_from_days days = (y, m, d)"
  by (simp only: assms civil_from_days_def Let_def)

lemma civil_19675: "civil_from_days 19675 = (2023, 11, 14)"
  by (rule civil_from_days_eval [where z = 739143 and era = 5 and doe = 8658 and yoe = 23
        and doy = 258 and mp = 8]) simp_all

lemma slice_toISOString:
  "civil_from_days (t div 86400000) = (y, m, d) \<Longrightarrow> 0 \<le> y \<Longrightarrow> y \<le> 9999 \<Longrightarrow>
   slice_0_10 (toISOString (TimeValue t)) =
     Inr (pad4 (nat y) @ ''-'' @ pad2 (nat m) @ ''-'' @ pad2 (nat d))"
  by (simp add: toISOString.simps Let_def slice_0_10_def iso_year_def pad2_def pad3_def pad4_def)

lemma date_2023_11_14:
  "t div 86400000 = 19675 \<Longrightarrow> slice_0_10 (toISOString (TimeValue t)) = Inr ''2023-11-14''"
  using slice_toISOString [of t 2023 11 14]
  by (simp add: civil_19675 pad2_def pad3_def pad4_def digit_char_def)

lemma toTxnDate_finite:
  "ts \<noteq> [] \<Longrightarrow> StringToNumber (before_dot ts) = Fin q \<Longrightarrow>
   toTxnDateFromConsensus now (Some ts) = slice_0_10 (toISOString (new_Date (round_double (q * 1000))))"
  by (simp add: toTxnDateFromConsensus_def truthy_str_def str_or_def)

lemma toTxnDate_missing:
  "\<not> truthy_str ts \<Longrightarrow>
   toTxnDateFromConsensus now ts = slice_0_10 (toISOString (TimeValue now))"
  by (simp add: toTxnDateFromConsensus_def)

lemma toTxnDate_not_finite:
  "\<not> Number_isFinite (StringToNumber (before_dot ts)) \<Longrightarrow>
   toTxnDateFromConsensus now (Some ts) = slice_0_10 (toISOString (TimeValue now))"
  by (simp add: toTxnDateFromConsensus_def str_or_def truthy_str_def)

subsection \<open>The scenario transactions\<close>

lemma net_deposit: "netTinybarFor tx_deposit ''0.0.100'' = Fin 500000000"
  by (simp add: hedera_defs tx_defs num_defs)

lemma secs_deposit: "StringToNumber (before_dot ''1700000000.0'') = Fin 1700000000"
  by (simp add: num_defs)

lemma date_deposit:
  "toTxnDateFromConsensus now (consensus_timestamp tx_deposit) = Inr ''2023-11-14''"
  by (simp add: tx_defs toTxnDate_finite [OF _ secs_deposit] round_double_numeral trunc_def date_2023_11_14)

lemma key_deposit: "makeIdempotencyKey tx_deposit = ''hedera:0.0.1-1-1:1700000000.0''"
  by (simp add: makeIdempotencyKey_def tx_defs str_or_def)

lemma deposit_query_2023_11_14:
  "deposit_dedupe_query ''2023-11-14'' =
     ''select Id, PrivateNote from Deposit where TxnDate='' @ [CHR 0x27] @ ''2023-11-14''
     @ [CHR 0x27] @ '' maxresults 200''"
  by (simp add: qbo_defs num_defs)

lemma transfer_query_2023_11_14:
  "transfer_dedupe_query ''2023-11-14'' =
     ''select Id,PrivateNote from Transfer where TxnDate='' @ [CHR 0x27] @ ''2023-11-14''
     @ [CHR 0x27] @ '' maxresults 200''"
  by (simp add: qbo_defs num_defs)

section \<open>The in-memory de-dupe cache\<close>

lemma toFixed2_int:
  assumes "0 \<le> n" "n \<le> 2 ^ 53"
  shows "toFixed2 (Fin (of_int n)) = Fin (of_int n)"
proof -
  let ?a = "of_int n :: rat"
  have f: "\<lfloor>\<bar>?a\<bar> * 100 + 1 / 2\<rfloor> = n * 100"
    using assms(1) by (intro floor_unique) simp_all
  have "(of_int n :: rat) \<le> of_int (2 ^ 53)" using assms(2) by (simp only: of_int_le_iff)
  then have small: "\<not> 10 ^ 21 \<le> \<bar>?a\<bar>" using assms(1) by simp
  have eq: "sgn ?a * of_int \<lfloor>\<bar>?a\<bar> * 100 + 1 / 2\<rfloor> / 100 = ?a"
    unfolding f using assms(1) by (cases "n = 0") simp_all
  have "toFixed2 (Fin ?a) = round_double (sgn ?a * of_int \<lfloor>\<bar>?a\<bar> * 100 + 1 / 2\<rfloor> / 100)"
    using small by (simp only: toFixed2.simps if_False)
  also have "\<dots> = round_double ?a" by (simp only: eq)
  also have "\<dots> = Fin ?a" using round_double_int [of n] assms by simp
  finally show ?thesis .
qed

lemma toFixed2_5: "toFixed2 (Fin 5) = Fin 5"
  using toFixed2_int [of 5] by simp

lemma toFixed2_3: "toFixed2 (Fin 3) = Fin 3"
  using toFixed2_int [of 3] by simp

lemma inbound_rejected:
  "process_inbound (ledger_env rejects_deposits []) demo_vars (Fin 5) ''2023-11-14''
     ''hedera:0.0.1-1-1:1700000000.0'' [] (ready\<lparr>seenKeys := [''hedera:0.0.1-1-1:1700000000.0'']\<rparr>)
   = (Inl (Error ''{code:6000}''),
      ready\<lparr>seenKeys := [''hedera:0.0.1-1-1:1700000000.0''],
        calls := [QboCall (Query ''4620816365'' (deposit_dedupe_query ''2023-11-14'')),
                  QboCall (PostDeposit ''4620816365''
                    \<lparr>dep_TxnDate = ''2023-11-14'', dep_DepositToAccountRef = Some ''1'',
                     dep_PrivateNote = ''hedera:0.0.1-1-1:1700000000.0'',
                     dep_Line_Amount = Fin 5, dep_Line_AccountRef = Some ''2''\<rparr>)]\<rparr>)"
  by (simp add: process_inbound_def qboExistsDepositByKey_def createQboDeposit_def io_defs
      ledger_defs ready_def start_def demo_vars_def deposit_query_2023_11_14 toFixed2_5
      del: toFixed2.simps)


lemma start_fields [simp]:
  "seenKeys start = []" "calls start = []" "realmId start = None" "world start = empty_ledger"
  by (simp_all add: start_def)

lemma ready_fields [simp]:
  "seenKeys ready = []" "calls ready = []" "realmId ready = None"
  by (simp_all add: ready_def)

lemma net_far: "netTinybarFor tx_far ''0.0.100'' = Fin 500000000"
  by (simp add: hedera_defs tx_defs num_defs)

lemma secs_far: "StringToNumber (before_dot ''8700000000000.0'') = Fin 8700000000000"
  by (simp add: num_defs)

lemma date_far:
  "toTxnDateFromConsensus now (consensus_timestamp tx_far) = Inl (RangeError ''Invalid time value'')"
  by (simp add: tx_defs toTxnDate_finite [OF _ secs_far] slice_0_10_def)

lemma demo_vars_fields [simp]:
  "target demo_vars = ''0.0.100''" "companyRealmId demo_vars = ''4620816365''"
  "targetWalletId demo_vars = Some ''1''" "clearingId demo_vars = Some ''2''"
  "externalOutflowId demo_vars = Some ''3''"
  by (simp_all add: demo_vars_def)

text \<open>
  C9, as stated, fails in one respect: a later call with \<open>k\<close> need not return true,
  because \<open>/callback\<close> clears \<open>seenKeys\<close> when the realm changes. With realm
  \<open>4620816365\<close> bound, the key is marked; after a callback for realm \<open>9341453908\<close>
  the next call with the same key returns false again.
\<close>

theorem C9_later_call_after_realm_change:
  "fst (alreadyProcessedInMemory ''hedera:0.0.1-1-1:1700000000.0''
          (start\<lparr>realmId := Some ''4620816365''\<rparr>)) = False \<and>
   fst (alreadyProcessedInMemory ''hedera:0.0.1-1-1:1700000000.0''
          (snd (callback (ledger_env never []) (Some ''9341453908'') ''/callback?realmId=9341453908''
             (snd (alreadyProcessedInMemory ''hedera:0.0.1-1-1:1700000000.0''
                (start\<lparr>realmId := Some ''4620816365''\<rparr>)))))) = False"
  by (simp add: alreadyProcessedInMemory_def callback_def ledger_defs truthy_str_def)

text \<open>
  C9, amended: a call of \<open>alreadyProcessedInMemory\<close> with a key that is not in
  \<open>seenKeys\<close> returns false and inserts it; with a key that is in \<open>seenKeys\<close> it returns
  true, and the key stays in \<open>seenKeys\<close> through every further call of
  \<open>alreadyProcessedInMemory\<close>, every run of \<open>/syncHederaToQbo\<close> and every callback that
  does not change the realm (a callback that changes the realm clears the set). In the
  loop, for a transaction with a non-zero net movement: when deriving the date raises
  (the \<open>RangeError\<close> of a timestamp beyond the range of \<open>Date\<close>), the iteration ends in
  that error with the state as it was, the key not inserted; when it returns a date, the
  key is inserted before the backend is asked anything: the duplicate check and the write
  run from the state that already holds the key, and the key is in \<open>seenKeys\<close> after the
  iteration whatever the backend answers, also when the create call fails.
\<close>

theorem C9_seen_key_stays:
  "(k \<notin> set (seenKeys s) \<longrightarrow>
      alreadyProcessedInMemory k s = (False, s\<lparr>seenKeys := seenKeys s @ [k]\<rparr>))
   \<and> (k \<in> set (seenKeys s) \<longrightarrow>
        alreadyProcessedInMemory k s = (True, s)
      \<and> k \<in> set (seenKeys (snd (alreadyProcessedInMemory k' s)))
      \<and> k \<in> set (seenKeys (snd (syncHederaToQbo env cfg q s)))
      \<and> (\<not> (truthy_str (realmId s) \<and> truthy_str new \<and> realmId s \<noteq> new) \<longrightarrow>
           k \<in> set (seenKeys (snd (callback env new url s)))))
   \<and> (moves (target v) tx \<and>
      toTxnDateFromConsensus (clock env (world s)) (consensus_timestamp tx) = Inl e \<longrightarrow>
        processTx env cfg v tx results s = (Inl e, s))
   \<and> (moves (target v) tx \<and>
      toTxnDateFromConsensus (clock env (world s)) (consensus_timestamp tx) = Inr d \<longrightarrow>
        makeIdempotencyKey tx \<in> set (seenKeys (snd (processTx env cfg v tx results s)))
      \<and> (makeIdempotencyKey tx \<notin> set (seenKeys s) \<longrightarrow>
           processTx env cfg v tx results s =
             (if js_gt_zero (netTinybarFor tx (target v))
              then process_inbound env v
                     (js_div_pos (Math_abs (netTinybarFor tx (target v))) 100000000) d
                     (makeIdempotencyKey tx) results
              else process_outbound env cfg v tx
                     (js_div_pos (Math_abs (netTinybarFor tx (target v))) 100000000) d
                     (makeIdempotencyKey tx) results)
               (s\<lparr>seenKeys := seenKeys s @ [makeIdempotencyKey tx]\<rparr>)))"
proof (intro conjI impI)
  show "alreadyProcessedInMemory k s = (False, s\<lparr>seenKeys := seenKeys s @ [k]\<rparr>)"
    if "k \<notin> set (seenKeys s)"
    using that by (simp add: alreadyProcessedInMemory_def)
next
  assume k: "k \<in> set (seenKeys s)"
  show "alreadyProcessedInMemory k s = (True, s)"
    using k by (simp add: alreadyProcessedInMemory_def)
  show "k \<in> set (seenKeys (snd (alreadyProcessedInMemory k' s)))"
    using k by (simp add: alreadyProcessedInMemory_def)
  show "k \<in> set (seenKeys (snd (syncHederaToQbo env cfg q s)))"
    using k sync_state [of env cfg q s] by (cases "syncHederaToQbo env cfg q s") auto
  show "k \<in> set (seenKeys (snd (callback env new url s)))"
    if "\<not> (truthy_str (realmId s) \<and> truthy_str new \<and> realmId s \<noteq> new)"
    using k that by (auto simp: callback_def Let_def truthy_str_def split: prod.splits sum.splits option.splits)
next
  show "processTx env cfg v tx results s = (Inl e, s)"
    if "moves (target v) tx \<and>
        toTxnDateFromConsensus (clock env (world s)) (consensus_timestamp tx) = Inl e"
    using that by (simp add: moves_def processTx_date_error)
next
  assume h: "moves (target v) tx \<and>
    toTxnDateFromConsensus (clock env (world s)) (consensus_timestamp tx) = Inr d"
  then have nz: "\<not> js_is_zero (netTinybarFor tx (target v))" by (simp add: moves_def)
  show "makeIdempotencyKey tx \<in> set (seenKeys (snd (processTx env cfg v tx results s)))"
    using processTx_marks [OF _ nz, of env cfg results s] h
    by (cases "processTx env cfg v tx results s") auto
  show "processTx env cfg v tx results s =
             (if js_gt_zero (netTinybarFor tx (target v))
              then process_inbound env v
                     (js_div_pos (Math_abs (netTinybarFor tx (target v))) 100000000) d
                     (makeIdempotencyKey tx) results
              else process_outbound env cfg v tx
                     (js_div_pos (Math_abs (netTinybarFor tx (target v))) 100000000) d
                     (makeIdempotencyKey tx) results)
               (s\<lparr>seenKeys := seenKeys s @ [makeIdempotencyKey tx]\<rparr>)"
    if "makeIdempotencyKey tx \<notin> set (seenKeys s)"
    using that nz h by (simp add: processTx_inbound processTx_outbound)
qed

text \<open>
  The theorem at the deposit of the scenarios, against a backend that answers every
  deposit creation with a fault: the iteration ends in the error and the key is marked.
  At the deposit with the timestamp \<open>8700000000000.0\<close> the iteration ends in the
  \<open>RangeError\<close> and nothing is marked.
\<close>

theorem C9_seen_key_stays_witness:
  "alreadyProcessedInMemory ''hedera:0.0.1-1-1:1700000000.0'' ready
     = (False, ready\<lparr>seenKeys := [''hedera:0.0.1-1-1:1700000000.0'']\<rparr>)
   \<and> alreadyProcessedInMemory ''hedera:0.0.1-1-1:1700000000.0''
       (ready\<lparr>seenKeys := [''hedera:0.0.1-1-1:1700000000.0'']\<rparr>)
     = (True, ready\<lparr>seenKeys := [''hedera:0.0.1-1-1:1700000000.0'']\<rparr>)
   \<and> fst (processTx (ledger_env rejects_deposits []) demo_config demo_vars tx_deposit [] ready)
     = Inl (Error ''{code:6000}'')
   \<and> ''hedera:0.0.1-1-1:1700000000.0''
       \<in> set (seenKeys (snd (processTx (ledger_env rejects_deposits []) demo_config demo_vars
                                 tx_deposit [] ready)))
   \<and> processTx (ledger_env rejects_deposits []) demo_config demo_vars tx_far [] ready
     = (Inl (RangeError ''Invalid time value''), ready)"
proof -
  let ?k = "''hedera:0.0.1-1-1:1700000000.0''"
  let ?env = "ledger_env rejects_deposits [] :: ledger env"
  have a: "alreadyProcessedInMemory ?k ready = (False, ready\<lparr>seenKeys := [?k]\<rparr>)"
    using C9_seen_key_stays [of ?k ready] by simp
  have b: "alreadyProcessedInMemory ?k (ready\<lparr>seenKeys := [?k]\<rparr>)
             = (True, ready\<lparr>seenKeys := [?k]\<rparr>)"
    using C9_seen_key_stays [of ?k "ready\<lparr>seenKeys := [?k]\<rparr>"] by simp
  have m: "moves (target demo_vars) tx_deposit"
    by (simp add: moves_def net_deposit)
  have d: "toTxnDateFromConsensus (clock ?env (world ready)) (consensus_timestamp tx_deposit)
             = Inr ''2023-11-14''"
    by (rule date_deposit)
  note T = C9_seen_key_stays [where s = ready and env = ?env and cfg = demo_config
      and v = demo_vars and tx = tx_deposit and d = "''2023-11-14''" and results = "[]"]
  have c: "makeIdempotencyKey tx_deposit
             \<in> set (seenKeys (snd (processTx ?env demo_config demo_vars tx_deposit [] ready)))"
    using T m d by blast
  have "makeIdempotencyKey tx_deposit \<notin> set (seenKeys ready)" by simp
  with T m d have "processTx ?env demo_config demo_vars tx_deposit [] ready =
             (if js_gt_zero (netTinybarFor tx_deposit (target demo_vars))
              then process_inbound ?env demo_vars
                     (js_div_pos (Math_abs (netTinybarFor tx_deposit (target demo_vars))) 100000000)
                     ''2023-11-14'' (makeIdempotencyKey tx_deposit) []
              else process_outbound ?env demo_config demo_vars tx_deposit
                     (js_div_pos (Math_abs (netTinybarFor tx_deposit (target demo_vars))) 100000000)
                     ''2023-11-14'' (makeIdempotencyKey tx_deposit) [])
               (ready\<lparr>seenKeys := seenKeys ready @ [makeIdempotencyKey tx_deposit]\<rparr>)"
    by blast
  then have e: "processTx ?env demo_config demo_vars tx_deposit [] ready =
             process_inbound ?env demo_vars (Fin 5) ''2023-11-14'' ?k []
               (ready\<lparr>seenKeys := [?k]\<rparr>)"
    by (simp add: net_deposit key_deposit)
  have mf: "moves (target demo_vars) tx_far"
    by (simp add: moves_def net_far)
  have df: "toTxnDateFromConsensus (clock ?env (world ready)) (consensus_timestamp tx_far)
             = Inl (RangeError ''Invalid time value'')"
    by (rule date_far)
  have f: "processTx ?env demo_config demo_vars tx_far [] ready
             = (Inl (RangeError ''Invalid time value''), ready)"
    using C9_seen_key_stays [where s = ready and env = ?env and cfg = demo_config
      and v = demo_vars and tx = tx_far and e = "RangeError ''Invalid time value''"
      and results = "[]"] mf df by blast
  show ?thesis using a b c f by (simp add: e inbound_rejected key_deposit)
qed

section \<open>The duplicate check\<close>

lemma collapse_from_no_ws:
  "\<forall>c\<in>set xs. \<not> isWhiteSpace c \<Longrightarrow>
   collapse_from b (xs @ ys) = xs @ collapse_from (if xs = [] then b else False) ys"
  by (induction xs arbitrary: b) auto

lemma note_matches_iff: "note_matches key cs = (\<exists>c\<in>set cs. PrivateNote c = Some key)"
  by (induction cs) auto

lemma check_candidates:
  "(if cs = [] then ret False else ret (note_matches key cs))
     = ret (\<exists>c\<in>set cs. PrivateNote c = Some key)"
  by (cases cs) (simp_all add: note_matches_iff)

lemma dedupe_query_text:
  assumes "\<forall>c\<in>set txnDate. \<not> isWhiteSpace c"
  shows "deposit_dedupe_query txnDate =
           ''select Id, PrivateNote from Deposit where TxnDate='' @ [CHR 0x27] @ txnDate
           @ [CHR 0x27] @ '' maxresults 200''"
    and "transfer_dedupe_query txnDate =
           ''select Id,PrivateNote from Transfer where TxnDate='' @ [CHR 0x27] @ txnDate
           @ [CHR 0x27] @ '' maxresults 200''"
  using assms
  by (simp_all add: deposit_dedupe_query_def transfer_dedupe_query_def collapse_ws_def
      collapse_from_no_ws trim_def isWhiteSpace_def)


text \<open>
  C3: the duplicate check makes one call, the query
  \<open>select Id, PrivateNote from Deposit where TxnDate='<date>' maxresults 200\<close>
  (\<open>select Id,PrivateNote from Transfer ...\<close> for a transfer), which names the entity, the
  date and the cap of 200 and nothing else. If the call is rejected the rejection is
  passed on; otherwise the answer is true if and only if some returned candidate has a
  \<open>PrivateNote\<close> equal to the key. The amount and the account ids passed in do not occur
  on the right-hand sides: they play no role.
\<close>

theorem C3_duplicate_check:
  "qboExistsDepositByKey env realm txnDate amount depositToAccountId sourceAccountId key s =
     (case makeApiCall env (Query realm (deposit_dedupe_query txnDate)) (world s) of
        (res, w') \<Rightarrow>
          (map_sum id (\<lambda>data. \<exists>c\<in>set (deposit_candidates data). PrivateNote c = Some key) res,
           s\<lparr>world := w',
             calls := calls s @ [QboCall (Query realm (deposit_dedupe_query txnDate))]\<rparr>))
   \<and> qboExistsTransferByKey env realm txnDate amount fromAccountId toAccountId key s =
     (case makeApiCall env (Query realm (transfer_dedupe_query txnDate)) (world s) of
        (res, w') \<Rightarrow>
          (map_sum id (\<lambda>data. \<exists>c\<in>set (transfer_candidates data). PrivateNote c = Some key) res,
           s\<lparr>world := w',
             calls := calls s @ [QboCall (Query realm (transfer_dedupe_query txnDate))]\<rparr>))
   \<and> ((\<forall>c\<in>set txnDate. \<not> isWhiteSpace c) \<longrightarrow>
        deposit_dedupe_query txnDate =
          ''select Id, PrivateNote from Deposit where TxnDate='' @ [CHR 0x27] @ txnDate
          @ [CHR 0x27] @ '' maxresults 200''
      \<and> transfer_dedupe_query txnDate =
          ''select Id,PrivateNote from Transfer where TxnDate='' @ [CHR 0x27] @ txnDate
          @ [CHR 0x27] @ '' maxresults 200'')"
proof (intro conjI impI)
  show "qboExistsDepositByKey env realm txnDate amount depositToAccountId sourceAccountId key s =
     (case makeApiCall env (Query realm (deposit_dedupe_query txnDate)) (world s) of
        (res, w') \<Rightarrow>
          (map_sum id (\<lambda>data. \<exists>c\<in>set (deposit_candidates data). PrivateNote c = Some key) res,
           s\<lparr>world := w',
             calls := calls s @ [QboCall (Query realm (deposit_dedupe_query txnDate))]\<rparr>))"
    unfolding qboExistsDepositByKey_def Let_def deposit_candidates_def [symmetric]
    by (simp add: check_candidates io_defs split: prod.splits sum.splits)
  show "qboExistsTransferByKey env realm txnDate amount fromAccountId toAccountId key s =
     (case makeApiCall env (Query realm (transfer_dedupe_query txnDate)) (world s) of
        (res, w') \<Rightarrow>
          (map_sum id (\<lambda>data. \<exists>c\<in>set (transfer_candidates data). PrivateNote c = Some key) res,
           s\<lparr>world := w',
             calls := calls s @ [QboCall (Query realm (transfer_dedupe_query txnDate))]\<rparr>))"
    unfolding qboExistsTransferByKey_def Let_def transfer_candidates_def [symmetric]
    by (simp add: check_candidates io_defs split: prod.splits sum.splits)
qed (simp_all add: dedupe_query_text)

text \<open>The theorem at a ledger that holds the deposit of the scenarios: queried with
  another amount and no account ids the check finds it, queried for another key it does not.\<close>

theorem C3_duplicate_check_witness:
  "fst (qboExistsDepositByKey (ledger_env never []) ''4620816365'' ''2023-11-14'' (Fin 7) None
          None ''hedera:0.0.1-1-1:1700000000.0'' one_deposit) = Inr True
   \<and> fst (qboExistsDepositByKey (ledger_env never []) ''4620816365'' ''2023-11-14'' (Fin 5)
            (Some ''1'') (Some ''2'') ''hedera:0.0.1-9-9:1700000000.0'' one_deposit) = Inr False
   \<and> deposit_dedupe_query ''2023-11-14'' =
       ''select Id, PrivateNote from Deposit where TxnDate='' @ [CHR 0x27] @ ''2023-11-14''
       @ [CHR 0x27] @ '' maxresults 200''"
proof -
  have ws: "\<forall>c\<in>set ''2023-11-14''. \<not> isWhiteSpace c"
    by (simp add: isWhiteSpace_def)
  have q: "deposit_dedupe_query ''2023-11-14'' =
       ''select Id, PrivateNote from Deposit where TxnDate='' @ [CHR 0x27] @ ''2023-11-14''
       @ [CHR 0x27] @ '' maxresults 200''"
    using C3_duplicate_check [where txnDate = "''2023-11-14''"] ws by blast
  have r: "makeApiCall (ledger_env never []) (Query ''4620816365'' (deposit_dedupe_query ''2023-11-14''))
             (world one_deposit)
           = (Inr (no_body\<lparr>QueryResponse := Some
                \<lparr>qr_Account = None,
                 qr_Deposit = Some [\<lparr>ent_Id = None,
                    PrivateNote = Some ''hedera:0.0.1-1-1:1700000000.0''\<rparr>],
                 qr_Transfer = None\<rparr>\<rparr>), world one_deposit)"
    by (simp add: one_deposit_def ledger_defs q account_find_query_def)
  have A: "fst (qboExistsDepositByKey (ledger_env never []) ''4620816365'' ''2023-11-14'' (Fin 7)
          None None ''hedera:0.0.1-1-1:1700000000.0'' one_deposit) = Inr True"
    using C3_duplicate_check [where env = "ledger_env never []" and realm = "''4620816365''"
        and txnDate = "''2023-11-14''" and amount = "Fin 7" and depositToAccountId = None
        and sourceAccountId = None and key = "''hedera:0.0.1-1-1:1700000000.0''"
        and s = one_deposit]
    by (simp add: r deposit_candidates_def no_body_def)
  have B: "fst (qboExistsDepositByKey (ledger_env never []) ''4620816365'' ''2023-11-14'' (Fin 5)
            (Some ''1'') (Some ''2'') ''hedera:0.0.1-9-9:1700000000.0'' one_deposit) = Inr False"
    using C3_duplicate_check [where env = "ledger_env never []" and realm = "''4620816365''"
        and txnDate = "''2023-11-14''" and amount = "Fin 5" and depositToAccountId = "Some ''1''"
        and sourceAccountId = "Some ''2''" and key = "''hedera:0.0.1-9-9:1700000000.0''"
        and s = one_deposit]
    by (simp add: r deposit_candidates_def no_body_def)
  show ?thesis using A B q by blast
qed

section \<open>Net movement\<close>


lemma js_add_NaN [simp]: "js_add x NaN = NaN" "js_add NaN x = NaN"
  by (cases x; simp)+








section \<open>The destination of a transfer\<close>

lemma find_tracked_entries:
  "find_tracked cfg (map cp_account (otherAccountsInTransfer tx tgt))
     = (case List.find (tracked_counterparty cfg tgt) (transfers_or_empty tx) of
          None \<Rightarrow> None
        | Some e \<Rightarrow> e_account e)"
proof -
  have "find_tracked cfg (map cp_account
          (filter (\<lambda>t. truthy_str (cp_account t) \<and> cp_account t \<noteq> Some tgt)
             (map (\<lambda>t. \<lparr>cp_account = e_account t, cp_amount = amount_number t\<rparr>) es)))
        = (case List.find (tracked_counterparty cfg tgt) es of
             None \<Rightarrow> None | Some e \<Rightarrow> e_account e)" for es
    by (induction es)
       (auto simp: find_tracked_def tracked_counterparty_def truthy_str_def split: option.splits)
  then show ?thesis by (simp add: otherAccountsInTransfer_def)
qed

lemma find_tracked_Some:
  "find_tracked cfg (map cp_account (otherAccountsInTransfer tx tgt)) = Some a \<Longrightarrow>
   a \<noteq> [] \<and> a \<noteq> tgt \<and> a \<in> set (TRACKED_HEDERA_ACCOUNTS cfg)"
  by (auto simp: find_tracked_entries find_Some_iff tracked_counterparty_def
      split: option.splits)

lemma find_tracked_first:
  assumes "i < length (transfers_or_empty tx)"
    and "tracked_counterparty cfg tgt (transfers_or_empty tx ! i)"
    and "\<forall>j<i. \<not> tracked_counterparty cfg tgt (transfers_or_empty tx ! j)"
  shows "find_tracked cfg (map cp_account (otherAccountsInTransfer tx tgt))
           = e_account (transfers_or_empty tx ! i)"
proof -
  have "List.find (tracked_counterparty cfg tgt) (transfers_or_empty tx)
          = Some (transfers_or_empty tx ! i)"
    using assms by (auto simp: find_Some_iff)
  then show ?thesis by (simp add: find_tracked_entries)
qed

lemma find_tracked_none:
  assumes "\<forall>e\<in>set (transfers_or_empty tx). \<not> tracked_counterparty cfg tgt e"
  shows "find_tracked cfg (map cp_account (otherAccountsInTransfer tx tgt)) = None"
proof -
  have "List.find (tracked_counterparty cfg tgt) (transfers_or_empty tx) = None"
    using assms by (auto simp: find_None_iff)
  then show ?thesis by (simp add: find_tracked_entries)
qed

section \<open>The calls of the two branches\<close>

lemma issued_same_calls: "calls s0 = calls s \<Longrightarrow> issued s s' = issued s0 s'"
  by (simp add: issued_def)


lemma process_outbound_run:
  assumes po: "process_outbound env cfg v tx hbar d key results s = (r, s')"
  shows "\<exists>x s1.
          (case find_tracked cfg (map cp_account (otherAccountsInTransfer tx (target v))) of
             None \<Rightarrow> x = Inr (externalOutflowId v) \<and> s1 = s
           | Some a \<Rightarrow> getOrCreateWalletBankAccount env (companyRealmId v) a s = (x, s1))
        \<and> (case x of
             Inl e \<Rightarrow> r = Inl e \<and> s' = s1
           | Inr to \<Rightarrow>
               (issued s1 s' = [QboCall (Query (companyRealmId v) (transfer_dedupe_query d))] \<and>
                (r = Inr (results @ [SKIPPED_QBO Transfer key]) \<or> (\<exists>e. r = Inl e)))
             \<or> (issued s1 s' =
                  [QboCall (Query (companyRealmId v) (transfer_dedupe_query d)),
                   QboCall (PostTransfer (companyRealmId v)
                     \<lparr>tr_TxnDate = d, tr_FromAccountRef = targetWalletId v,
                      tr_ToAccountRef = to, tr_Amount = toFixed2 hbar,
                      tr_PrivateNote = key\<rparr>)] \<and>
                (r = Inr (results @
                      [CREATED Transfer (Some (target v))
                         (str_or (find_tracked cfg
                            (map cp_account (otherAccountsInTransfer tx (target v))))
                            ''External Wallet'') hbar d key])
                 \<or> (\<exists>e. r = Inl e))))"
proof -
  let ?a = "find_tracked cfg (map cp_account (otherAccountsInTransfer tx (target v)))"
  let ?dest = "if truthy_str ?a
               then getOrCreateWalletBankAccount env (companyRealmId v) (str_or ?a [])
               else ret (externalOutflowId v)"
  obtain x s1 where dx: "?dest s = (x, s1)" by (cases "?dest s")
  have first: "case ?a of
             None \<Rightarrow> x = Inr (externalOutflowId v) \<and> s1 = s
           | Some a \<Rightarrow> getOrCreateWalletBankAccount env (companyRealmId v) a s = (x, s1)"
  proof (cases ?a)
    case None
    then show ?thesis using dx by (simp add: truthy_str_def ret_def)
  next
    case (Some a)
    then have "a \<noteq> []" using find_tracked_Some by blast
    then show ?thesis using dx Some by (simp add: truthy_str_def str_or_def)
  qed
  have second: "case x of
             Inl e \<Rightarrow> r = Inl e \<and> s' = s1
           | Inr to \<Rightarrow>
               (issued s1 s' = [QboCall (Query (companyRealmId v) (transfer_dedupe_query d))] \<and>
                (r = Inr (results @ [SKIPPED_QBO Transfer key]) \<or> (\<exists>e. r = Inl e)))
             \<or> (issued s1 s' =
                  [QboCall (Query (companyRealmId v) (transfer_dedupe_query d)),
                   QboCall (PostTransfer (companyRealmId v)
                     \<lparr>tr_TxnDate = d, tr_FromAccountRef = targetWalletId v,
                      tr_ToAccountRef = to, tr_Amount = toFixed2 hbar,
                      tr_PrivateNote = key\<rparr>)] \<and>
                (r = Inr (results @
                      [CREATED Transfer (Some (target v)) (str_or ?a ''External Wallet'')
                         hbar d key])
                 \<or> (\<exists>e. r = Inl e)))"
  proof (cases x)
    case (Inl e)
    then show ?thesis using po dx by (simp add: process_outbound_def Let_def andThen_def)
  next
    case (Inr to)
    have rest: "andThen
                (qboExistsTransferByKey env (companyRealmId v) d hbar (targetWalletId v) to key)
                (\<lambda>exists.
                   if exists then ret (results @ [SKIPPED_QBO Transfer key])
                   else
                     andThen
                       (createQboTransfer env (companyRealmId v) (targetWalletId v) to hbar key d)
                       (\<lambda>created. ret (results @ [CREATED Transfer (Some (target v))
                            (str_or ?a ''External Wallet'') hbar d key]))) s1 = (r, s')"
      using po dx Inr by (simp add: process_outbound_def Let_def andThen_def)
    from process_transfer_cases [OF rest] show ?thesis
    proof (elim disjE exE conjE)
      fix e
      assume q: "qboExistsTransferByKey env (companyRealmId v) d hbar (targetWalletId v) to key s1
                = (Inl e, s')" and r: "r = Inl e"
      from existsTransfer_calls [OF q]
      have "issued s1 s' = [QboCall (Query (companyRealmId v) (transfer_dedupe_query d))]"
        by (simp add: issued_def)
      then show ?thesis using Inr r by simp
    next
      assume q: "qboExistsTransferByKey env (companyRealmId v) d hbar (targetWalletId v) to key s1
                = (Inr True, s')" and r: "r = Inr (results @ [SKIPPED_QBO Transfer key])"
      from existsTransfer_calls [OF q]
      have "issued s1 s' = [QboCall (Query (companyRealmId v) (transfer_dedupe_query d))]"
        by (simp add: issued_def)
      then show ?thesis using Inr r by simp
    next
      fix s2 y
      assume q: "qboExistsTransferByKey env (companyRealmId v) d hbar (targetWalletId v) to key s1
                = (Inr False, s2)"
        and c: "createQboTransfer env (companyRealmId v) (targetWalletId v) to hbar key d s2
                  = (y, s')"
        and r: "r = (case y of Inl e \<Rightarrow> Inl e
                 | Inr b \<Rightarrow> Inr (results @ [CREATED Transfer (Some (target v))
                            (str_or ?a ''External Wallet'') hbar d key]))"
      from existsTransfer_calls [OF q] createTransfer_calls [OF c]
      have "issued s1 s' =
                  [QboCall (Query (companyRealmId v) (transfer_dedupe_query d)),
                   QboCall (PostTransfer (companyRealmId v)
                     \<lparr>tr_TxnDate = d, tr_FromAccountRef = targetWalletId v,
                      tr_ToAccountRef = to, tr_Amount = toFixed2 hbar,
                      tr_PrivateNote = key\<rparr>)]"
        by (simp add: issued_def)
      then show ?thesis using r Inr by (cases y) simp_all
    qed
  qed
  from first second show ?thesis by blast
qed

section \<open>Runs against a backend that accepts\<close>


lemma existsTransfer_eq:
  assumes "makeApiCall env (Query realm (transfer_dedupe_query d)) (world s) = (Inr data, w1)"
  shows "qboExistsTransferByKey env realm d a f t key s =
           (Inr (\<exists>c\<in>set (transfer_candidates data). PrivateNote c = Some key),
            s\<lparr>world := w1, calls := calls s @ [QboCall (Query realm (transfer_dedupe_query d))]\<rparr>)"
  using assms
  by (simp add: qboExistsTransferByKey_def qboQuery_def api_def andThen_def ret_def Let_def
      transfer_candidates_def [symmetric] note_matches_iff)


lemma createTransfer_eq:
  assumes "makeApiCall env (PostTransfer realm
             \<lparr>tr_TxnDate = d, tr_FromAccountRef = f, tr_ToAccountRef = t,
              tr_Amount = toFixed2 a, tr_PrivateNote = k\<rparr>) (world s) = (Inr body, w2)"
    and "Fault body = None"
  shows "createQboTransfer env realm f t a k d s =
           (Inr body, s\<lparr>world := w2, calls := calls s @ [QboCall (PostTransfer realm
             \<lparr>tr_TxnDate = d, tr_FromAccountRef = f, tr_ToAccountRef = t,
              tr_Amount = toFixed2 a, tr_PrivateNote = k\<rparr>)]\<rparr>)"
  using assms by (simp add: createQboTransfer_def api_def andThen_def ret_def del: toFixed2.simps)


lemma process_transfer_created:
  assumes q: "makeApiCall env (Query realm (transfer_dedupe_query d)) (world s) = (Inr data, w1)"
    and n: "\<forall>c\<in>set (transfer_candidates data). PrivateNote c \<noteq> Some key"
    and c: "makeApiCall env (PostTransfer realm
               \<lparr>tr_TxnDate = d, tr_FromAccountRef = fromId, tr_ToAccountRef = toId,
                tr_Amount = toFixed2 hbar, tr_PrivateNote = key\<rparr>) w1 = (Inr body, w2)"
    and f: "Fault body = None"
  shows "andThen
                (qboExistsTransferByKey env realm d hbar fromId toId key)
                (\<lambda>exists.
                   if exists then ret (results @ [SKIPPED_QBO Transfer key])
                   else
                     andThen
                       (createQboTransfer env realm fromId toId hbar key d)
                       (\<lambda>created. ret (results @ [CREATED Transfer fr t hbar d key]))) s =
           (Inr (results @ [CREATED Transfer fr t hbar d key]),
            s\<lparr>world := w2,
              calls := calls s @
                [QboCall (Query realm (transfer_dedupe_query d)),
                 QboCall (PostTransfer realm
                   \<lparr>tr_TxnDate = d, tr_FromAccountRef = fromId, tr_ToAccountRef = toId,
                    tr_Amount = toFixed2 hbar, tr_PrivateNote = key\<rparr>)]\<rparr>)"
proof -
  let ?s1 = "s\<lparr>world := w1, calls := calls s @ [QboCall (Query realm (transfer_dedupe_query d))]\<rparr>"
  have e: "qboExistsTransferByKey env realm d hbar fromId toId key s = (Inr False, ?s1)"
    using existsTransfer_eq [OF q, of hbar fromId toId key] n by simp
  have "makeApiCall env (PostTransfer realm
               \<lparr>tr_TxnDate = d, tr_FromAccountRef = fromId, tr_ToAccountRef = toId,
                tr_Amount = toFixed2 hbar, tr_PrivateNote = key\<rparr>) (world ?s1) = (Inr body, w2)"
    using c by simp
  from createTransfer_eq [OF this f]
  show ?thesis by (simp add: andThen_def ret_def e del: toFixed2.simps)
qed


lemma find_tracked_found:
  assumes "List.find (tracked_counterparty cfg tgt) (transfers_or_empty tx) = Some e"
  shows "\<exists>a. e_account e = Some a \<and> a \<noteq> [] \<and> a \<noteq> tgt \<and>
             a \<in> set (TRACKED_HEDERA_ACCOUNTS cfg) \<and>
             find_tracked cfg (map cp_account (otherAccountsInTransfer tx tgt)) = Some a"
proof -
  from assms have "tracked_counterparty cfg tgt e" by (auto simp: find_Some_iff)
  then obtain a where "e_account e = Some a" "a \<noteq> []" "a \<noteq> tgt"
      "a \<in> set (TRACKED_HEDERA_ACCOUNTS cfg)"
    by (auto simp: tracked_counterparty_def split: option.splits)
  then show ?thesis using assms by (simp add: find_tracked_entries)
qed

lemma process_outbound_created:
  assumes dest: "case List.find (tracked_counterparty cfg (target v)) (transfers_or_empty tx) of
                   None \<Rightarrow> toId = externalOutflowId v \<and> s1 = s \<and> label = ''External Wallet''
                 | Some e \<Rightarrow>
                     getOrCreateWalletBankAccount env (companyRealmId v)
                       (str_or (e_account e) []) s = (Inr toId, s1) \<and>
                     label = str_or (e_account e) []"
    and q: "makeApiCall env (Query (companyRealmId v) (transfer_dedupe_query d)) (world s1)
              = (Inr data, w1)"
    and n: "\<forall>c\<in>set (transfer_candidates data). PrivateNote c \<noteq> Some key"
    and c: "makeApiCall env (PostTransfer (companyRealmId v)
               \<lparr>tr_TxnDate = d, tr_FromAccountRef = targetWalletId v, tr_ToAccountRef = toId,
                tr_Amount = toFixed2 hbar, tr_PrivateNote = key\<rparr>) w1 = (Inr body, w2)"
    and f: "Fault body = None"
  shows "process_outbound env cfg v tx hbar d key results s =
           (Inr (results @ [CREATED Transfer (Some (target v)) label hbar d key]),
            s1\<lparr>world := w2,
               calls := calls s1 @
                 [QboCall (Query (companyRealmId v) (transfer_dedupe_query d)),
                  QboCall (PostTransfer (companyRealmId v)
                    \<lparr>tr_TxnDate = d, tr_FromAccountRef = targetWalletId v,
                     tr_ToAccountRef = toId, tr_Amount = toFixed2 hbar,
                     tr_PrivateNote = key\<rparr>)]\<rparr>)"
proof -
  let ?a = "find_tracked cfg (map cp_account (otherAccountsInTransfer tx (target v)))"
  have d1: "(if truthy_str ?a
             then getOrCreateWalletBankAccount env (companyRealmId v) (str_or ?a [])
             else ret (externalOutflowId v)) s = (Inr toId, s1)"
    and l: "str_or ?a ''External Wallet'' = label"
  proof (atomize (full), cases "List.find (tracked_counterparty cfg (target v)) (transfers_or_empty tx)")
    case None
    then have "?a = None" by (simp add: find_tracked_entries)
    then show "(if truthy_str ?a
             then getOrCreateWalletBankAccount env (companyRealmId v) (str_or ?a [])
             else ret (externalOutflowId v)) s = (Inr toId, s1) \<and>
             str_or ?a ''External Wallet'' = label"
      using dest None by (simp add: truthy_str_def str_or_def ret_def)
  next
    case (Some e)
    from find_tracked_found [OF Some] obtain a where
      a: "e_account e = Some a" "a \<noteq> []" "?a = Some a" by blast
    then show "(if truthy_str ?a
             then getOrCreateWalletBankAccount env (companyRealmId v) (str_or ?a [])
             else ret (externalOutflowId v)) s = (Inr toId, s1) \<and>
             str_or ?a ''External Wallet'' = label"
      using dest Some by (simp add: truthy_str_def str_or_def)
  qed
  from process_transfer_created [OF q n c f]
  show ?thesis
    by (simp add: process_outbound_def Let_def l
        andThen_def [of "if truthy_str ?a
             then getOrCreateWalletBankAccount env (companyRealmId v) (str_or ?a [])
             else ret (externalOutflowId v)"] d1 del: toFixed2.simps)
qed

section \<open>Outbound transactions\<close>

lemma net_internal: "netTinybarFor tx_internal ''0.0.100'' = Fin (- 300000000)"
  by (simp add: hedera_defs tx_defs num_defs)

lemma net_outflow: "netTinybarFor tx_outflow ''0.0.100'' = Fin (- 300000000)"
  by (simp add: hedera_defs tx_defs num_defs)

lemma secs_internal: "StringToNumber (before_dot ''1700000100.0'') = Fin 1700000100"
  by (simp add: num_defs)

lemma secs_outflow: "StringToNumber (before_dot ''1700000200.0'') = Fin 1700000200"
  by (simp add: num_defs)

lemma date_internal:
  "toTxnDateFromConsensus now (consensus_timestamp tx_internal) = Inr ''2023-11-14''"
  by (simp add: tx_defs toTxnDate_finite [OF _ secs_internal] round_double_numeral trunc_def date_2023_11_14)

lemma date_outflow:
  "toTxnDateFromConsensus now (consensus_timestamp tx_outflow) = Inr ''2023-11-14''"
  by (simp add: tx_defs toTxnDate_finite [OF _ secs_outflow] round_double_numeral trunc_def date_2023_11_14)

lemma key_internal: "makeIdempotencyKey tx_internal = ''hedera:0.0.1-2-2:1700000100.0''"
  by (simp add: makeIdempotencyKey_def tx_defs str_or_def)

lemma key_outflow: "makeIdempotencyKey tx_outflow = ''hedera:0.0.1-3-3:1700000200.0''"
  by (simp add: makeIdempotencyKey_def tx_defs str_or_def)

lemma wallet_200:
  "getOrCreateWalletBankAccount (ledger_env never page) ''4620816365'' ''0.0.200''
     (ready\<lparr>seenKeys := ks\<rparr>)
   = (Inr (Some ''4''),
      ready\<lparr>seenKeys := ks,
        world := empty_ledger\<lparr>l_accounts :=
          [''Hedera 0.0.100'', ''Hedera Clearing'', ''External Hedera Outflow'',
           ''Hedera 0.0.200'']\<rparr>,
        calls := [QboCall (Query ''4620816365'' (account_find_query ''Hedera 0.0.200'')),
                  QboCall (PostAccount ''4620816365''
                    \<lparr>acc_Name = ''Hedera 0.0.200'', acc_AccountType = ''Bank'',
                     acc_AccountSubType = None\<rparr>)]\<rparr>)"
  by (simp add: getOrCreateWalletBankAccount_def getOrCreateQboAccount_def
      hederaWalletAccountName_def qboEscape_def io_defs ledger_defs ready_def start_def
      truthy_str_def account_find_query_def dec_string.simps digit_char_def)

lemma no_transfers_yet:
  "l_transfers w = [] \<Longrightarrow>
   makeApiCall (ledger_env never page) (Query realm (transfer_dedupe_query d)) w
     = (Inr (no_body\<lparr>QueryResponse := Some (ledger_query (transfer_dedupe_query d) w)\<rparr>), w)
   \<and> transfer_candidates
       (no_body\<lparr>QueryResponse := Some (ledger_query (transfer_dedupe_query d) w)\<rparr>) = []"
  by (simp add: ledger_env_def ledger_api_def never_def transfer_candidates_def no_body_def
      ledger_query_def some_rows_def)

lemma transfer_accepted:
  "makeApiCall (ledger_env never page) (PostTransfer realm p) w
     = (Inr no_body, w\<lparr>l_transfers := l_transfers w @ [p]\<rparr>) \<and> Fault no_body = None"
  by (simp add: ledger_env_def ledger_api_def never_def no_body_def)

lemma lt_zero_cases:
  "js_lt_zero n \<Longrightarrow> \<not> js_is_zero n \<and> \<not> js_gt_zero n"
  by (cases n) auto

lemma first_tracked:
  assumes "i < length es \<and> P (es ! i) \<and> (\<forall>j<i. \<not> P (es ! j))"
  shows "List.find P es = Some (es ! i)"
  using assms by (auto simp: find_Some_iff)

text \<open>
  C10: take an outbound transaction (net movement below zero) whose key has not been seen.
  If no entry of the transaction names a tracked counterparty, the only calls are the
  duplicate query and, unless the record exists, the creation of a transfer to the
  external-outflow account. Otherwise let \<open>i\<close> be the first position, in list order, of an
  entry that names a tracked counterparty (non-empty account, not the target, in the
  tracked set; the entry's amount and its sign are not looked at): the program then finds
  or creates the wallet account of that entry's account, and the transfer it creates goes
  to the id this returned. In both cases, when the duplicate query returns no record
  annotated with the key and the backend accepts the creation, the transfer is created
  and reported.
\<close>

theorem C10_transfer_destination:
  assumes out: "js_lt_zero (netTinybarFor tx (target v))"
    and date: "toTxnDateFromConsensus (clock env (world s)) (consensus_timestamp tx) = Inr d"
    and new: "makeIdempotencyKey tx \<notin> set (seenKeys s)"
    and run: "processTx env cfg v tx results s = (r, s')"
  shows
    "((\<forall>e\<in>set (transfers_or_empty tx). \<not> tracked_counterparty cfg (target v) e) \<longrightarrow>
        (issued s s' = [QboCall (Query (companyRealmId v) (transfer_dedupe_query d))]
         \<or> issued s s' =
             [QboCall (Query (companyRealmId v) (transfer_dedupe_query d)),
              QboCall (PostTransfer (companyRealmId v)
                \<lparr>tr_TxnDate = d, tr_FromAccountRef = targetWalletId v,
                 tr_ToAccountRef = externalOutflowId v,
                 tr_Amount = toFixed2 (js_div_pos (Math_abs (netTinybarFor tx (target v))) 100000000),
                 tr_PrivateNote = makeIdempotencyKey tx\<rparr>)])
        \<and> (\<forall>rs. r = Inr rs \<longrightarrow> rs \<noteq> results @ [SKIPPED_QBO Transfer (makeIdempotencyKey tx)] \<longrightarrow>
              QboCall (PostTransfer (companyRealmId v)
                \<lparr>tr_TxnDate = d, tr_FromAccountRef = targetWalletId v,
                 tr_ToAccountRef = externalOutflowId v,
                 tr_Amount = toFixed2 (js_div_pos (Math_abs (netTinybarFor tx (target v))) 100000000),
                 tr_PrivateNote = makeIdempotencyKey tx\<rparr>) \<in> set (issued s s'))
        \<and> (makeApiCall env (Query (companyRealmId v) (transfer_dedupe_query d)) (world s)
              = (Inr data, w1) \<and>
            (\<forall>c\<in>set (transfer_candidates data). PrivateNote c \<noteq> Some (makeIdempotencyKey tx)) \<and>
            makeApiCall env (PostTransfer (companyRealmId v)
                \<lparr>tr_TxnDate = d, tr_FromAccountRef = targetWalletId v,
                 tr_ToAccountRef = externalOutflowId v,
                 tr_Amount = toFixed2 (js_div_pos (Math_abs (netTinybarFor tx (target v))) 100000000),
                 tr_PrivateNote = makeIdempotencyKey tx\<rparr>) w1 = (Inr body, w2) \<and>
            Fault body = None \<longrightarrow>
              r = Inr (results @ [CREATED Transfer (Some (target v)) ''External Wallet''
                     (js_div_pos (Math_abs (netTinybarFor tx (target v))) 100000000) d
                     (makeIdempotencyKey tx)]) \<and>
              issued s s' =
                [QboCall (Query (companyRealmId v) (transfer_dedupe_query d)),
                 QboCall (PostTransfer (companyRealmId v)
                   \<lparr>tr_TxnDate = d, tr_FromAccountRef = targetWalletId v,
                    tr_ToAccountRef = externalOutflowId v,
                    tr_Amount = toFixed2 (js_div_pos (Math_abs (netTinybarFor tx (target v))) 100000000),
                    tr_PrivateNote = makeIdempotencyKey tx\<rparr>)]))
   \<and> (\<forall>i. i < length (transfers_or_empty tx) \<and>
            tracked_counterparty cfg (target v) (transfers_or_empty tx ! i) \<and>
            (\<forall>j<i. \<not> tracked_counterparty cfg (target v) (transfers_or_empty tx ! j)) \<longrightarrow>
        (\<exists>a x s1.
            e_account (transfers_or_empty tx ! i) = Some a \<and>
            getOrCreateWalletBankAccount env (companyRealmId v) a
              (s\<lparr>seenKeys := seenKeys s @ [makeIdempotencyKey tx]\<rparr>) = (x, s1) \<and>
            (case x of
               Inl e \<Rightarrow> r = Inl e \<and> s' = s1
             | Inr toId \<Rightarrow>
                 (issued s1 s' = [QboCall (Query (companyRealmId v) (transfer_dedupe_query d))]
                  \<or> issued s1 s' =
                      [QboCall (Query (companyRealmId v) (transfer_dedupe_query d)),
                       QboCall (PostTransfer (companyRealmId v)
                         \<lparr>tr_TxnDate = d, tr_FromAccountRef = targetWalletId v,
                          tr_ToAccountRef = toId,
                          tr_Amount = toFixed2 (js_div_pos (Math_abs (netTinybarFor tx (target v))) 100000000),
                          tr_PrivateNote = makeIdempotencyKey tx\<rparr>)])
                 \<and> (\<forall>rs. r = Inr rs \<longrightarrow>
                        rs \<noteq> results @ [SKIPPED_QBO Transfer (makeIdempotencyKey tx)] \<longrightarrow>
                        QboCall (PostTransfer (companyRealmId v)
                         \<lparr>tr_TxnDate = d, tr_FromAccountRef = targetWalletId v,
                          tr_ToAccountRef = toId,
                          tr_Amount = toFixed2 (js_div_pos (Math_abs (netTinybarFor tx (target v))) 100000000),
                          tr_PrivateNote = makeIdempotencyKey tx\<rparr>) \<in> set (issued s1 s'))
                 \<and> (\<forall>data w1 body w2.
                      makeApiCall env (Query (companyRealmId v) (transfer_dedupe_query d)) (world s1)
                        = (Inr data, w1) \<and>
                      (\<forall>c\<in>set (transfer_candidates data).
                          PrivateNote c \<noteq> Some (makeIdempotencyKey tx)) \<and>
                      makeApiCall env (PostTransfer (companyRealmId v)
                         \<lparr>tr_TxnDate = d, tr_FromAccountRef = targetWalletId v,
                          tr_ToAccountRef = toId,
                          tr_Amount = toFixed2 (js_div_pos (Math_abs (netTinybarFor tx (target v))) 100000000),
                          tr_PrivateNote = makeIdempotencyKey tx\<rparr>) w1 = (Inr body, w2) \<and>
                      Fault body = None \<longrightarrow>
                        r = Inr (results @ [CREATED Transfer (Some (target v)) a
                               (js_div_pos (Math_abs (netTinybarFor tx (target v))) 100000000) d
                               (makeIdempotencyKey tx)]) \<and>
                        issued s1 s' =
                          [QboCall (Query (companyRealmId v) (transfer_dedupe_query d)),
                           QboCall (PostTransfer (companyRealmId v)
                             \<lparr>tr_TxnDate = d, tr_FromAccountRef = targetWalletId v,
                              tr_ToAccountRef = toId,
                              tr_Amount = toFixed2 (js_div_pos (Math_abs (netTinybarFor tx (target v))) 100000000),
                              tr_PrivateNote = makeIdempotencyKey tx\<rparr>)]))))"
proof -
  let ?key = "makeIdempotencyKey tx"
  let ?hbar = "js_div_pos (Math_abs (netTinybarFor tx (target v))) 100000000"
  let ?s0 = "s\<lparr>seenKeys := seenKeys s @ [?key]\<rparr>"
  let ?a = "find_tracked cfg (map cp_account (otherAccountsInTransfer tx (target v)))"
  let ?tq = "QboCall (Query (companyRealmId v) (transfer_dedupe_query d))"
  let ?p = "\<lambda>toId. PostTransfer (companyRealmId v)
                     \<lparr>tr_TxnDate = d, tr_FromAccountRef = targetWalletId v,
                      tr_ToAccountRef = toId, tr_Amount = toFixed2 ?hbar,
                      tr_PrivateNote = ?key\<rparr>"
  from lt_zero_cases [OF out] date new run
  have po: "process_outbound env cfg v tx ?hbar d ?key results ?s0 = (r, s')"
    by (simp add: processTx_outbound)
  from process_outbound_run [OF po] obtain x s1 where
    first: "case ?a of None \<Rightarrow> x = Inr (externalOutflowId v) \<and> s1 = ?s0
            | Some a \<Rightarrow> getOrCreateWalletBankAccount env (companyRealmId v) a ?s0 = (x, s1)"
    and second: "case x of
             Inl e \<Rightarrow> r = Inl e \<and> s' = s1
           | Inr toId \<Rightarrow>
               (issued s1 s' = [?tq] \<and>
                (r = Inr (results @ [SKIPPED_QBO Transfer ?key]) \<or> (\<exists>e. r = Inl e)))
             \<or> (issued s1 s' = [?tq, QboCall (?p toId)] \<and>
                (r = Inr (results @
                      [CREATED Transfer (Some (target v)) (str_or ?a ''External Wallet'')
                         ?hbar d ?key])
                 \<or> (\<exists>e. r = Inl e)))"
    by blast
  show ?thesis
  proof (intro conjI impI allI)
    assume none: "\<forall>e\<in>set (transfers_or_empty tx). \<not> tracked_counterparty cfg (target v) e"
    from find_tracked_none [OF none] first
    have x: "x = Inr (externalOutflowId v)" and s1: "s1 = ?s0" by simp_all
    have i: "issued s s' = issued s1 s'" unfolding s1 by (rule issued_same_calls) simp
    from second x i
    show "issued s s' = [?tq] \<or> issued s s' = [?tq, QboCall (?p (externalOutflowId v))]"
      by auto
    {
      fix rs
      assume "r = Inr rs" "rs \<noteq> results @ [SKIPPED_QBO Transfer ?key]"
      with second x i
      show "QboCall (?p (externalOutflowId v)) \<in> set (issued s s')"
        by auto
    }
    assume h: "makeApiCall env (Query (companyRealmId v) (transfer_dedupe_query d)) (world s)
              = (Inr data, w1) \<and>
            (\<forall>c\<in>set (transfer_candidates data). PrivateNote c \<noteq> Some ?key) \<and>
            makeApiCall env (?p (externalOutflowId v)) w1 = (Inr body, w2) \<and>
            Fault body = None"
    have fn: "List.find (tracked_counterparty cfg (target v)) (transfers_or_empty tx) = None"
      using none by (auto simp: find_None_iff)
    have "process_outbound env cfg v tx ?hbar d ?key results ?s0 =
           (Inr (results @ [CREATED Transfer (Some (target v)) ''External Wallet'' ?hbar d ?key]),
            ?s0\<lparr>world := w2, calls := calls ?s0 @ [?tq, QboCall (?p (externalOutflowId v))]\<rparr>)"
    proof (rule process_outbound_created)
      show "case List.find (tracked_counterparty cfg (target v)) (transfers_or_empty tx) of
              None \<Rightarrow> externalOutflowId v = externalOutflowId v \<and> ?s0 = ?s0 \<and>
                       ''External Wallet'' = ''External Wallet''
            | Some e \<Rightarrow>
                getOrCreateWalletBankAccount env (companyRealmId v)
                  (str_or (e_account e) []) ?s0 = (Inr (externalOutflowId v), ?s0) \<and>
                ''External Wallet'' = str_or (e_account e) []"
        by (simp add: fn)
      show "makeApiCall env (Query (companyRealmId v) (transfer_dedupe_query d)) (world ?s0)
              = (Inr data, w1)" using h by simp
      show "\<forall>c\<in>set (transfer_candidates data). PrivateNote c \<noteq> Some ?key" using h by blast
      show "makeApiCall env (?p (externalOutflowId v)) w1 = (Inr body, w2)" using h by blast
      show "Fault body = None" using h by blast
    qed
    with po have e: "r = Inr (results @ [CREATED Transfer (Some (target v)) ''External Wallet'' ?hbar d ?key])"
      "s' = ?s0\<lparr>world := w2, calls := calls ?s0 @ [?tq, QboCall (?p (externalOutflowId v))]\<rparr>"
      by simp_all
    show "r = Inr (results @ [CREATED Transfer (Some (target v)) ''External Wallet'' ?hbar d ?key])"
      by (rule e(1))
    show "issued s s' = [?tq, QboCall (?p (externalOutflowId v))]"
      unfolding e(2) by (simp add: issued_def)
  next
    fix i
    assume h: "i < length (transfers_or_empty tx) \<and>
            tracked_counterparty cfg (target v) (transfers_or_empty tx ! i) \<and>
            (\<forall>j<i. \<not> tracked_counterparty cfg (target v) (transfers_or_empty tx ! j))"
    then have fa: "?a = e_account (transfers_or_empty tx ! i)"
      using find_tracked_first by blast
    have fs: "List.find (tracked_counterparty cfg (target v)) (transfers_or_empty tx)
                = Some (transfers_or_empty tx ! i)"
      by (rule first_tracked [OF h])
    from find_tracked_found [OF fs] obtain a where
      a: "e_account (transfers_or_empty tx ! i) = Some a" and ne: "a \<noteq> []"
      by blast
    from first fa a
    have g: "getOrCreateWalletBankAccount env (companyRealmId v) a ?s0 = (x, s1)" by simp
    have safe: "case x of
               Inl e \<Rightarrow> r = Inl e \<and> s' = s1
             | Inr toId \<Rightarrow>
                 (issued s1 s' = [?tq] \<or> issued s1 s' = [?tq, QboCall (?p toId)])
                 \<and> (\<forall>rs. r = Inr rs \<longrightarrow> rs \<noteq> results @ [SKIPPED_QBO Transfer ?key] \<longrightarrow>
                        QboCall (?p toId) \<in> set (issued s1 s'))"
      using second by (cases x) auto
    have live: "r = Inr (results @ [CREATED Transfer (Some (target v)) a ?hbar d ?key]) \<and>
                issued s1 s' = [?tq, QboCall (?p toId)]"
      if x: "x = Inr toId"
        and hh: "makeApiCall env (Query (companyRealmId v) (transfer_dedupe_query d)) (world s1)
                        = (Inr data, w1) \<and>
                      (\<forall>c\<in>set (transfer_candidates data). PrivateNote c \<noteq> Some ?key) \<and>
                      makeApiCall env (?p toId) w1 = (Inr body, w2) \<and>
                      Fault body = None"
      for toId data w1 body w2
    proof -
      have "process_outbound env cfg v tx ?hbar d ?key results ?s0 =
           (Inr (results @ [CREATED Transfer (Some (target v)) a ?hbar d ?key]),
            s1\<lparr>world := w2, calls := calls s1 @ [?tq, QboCall (?p toId)]\<rparr>)"
      proof (rule process_outbound_created)
        show "case List.find (tracked_counterparty cfg (target v)) (transfers_or_empty tx) of
                None \<Rightarrow> toId = externalOutflowId v \<and> s1 = ?s0 \<and> a = ''External Wallet''
              | Some e \<Rightarrow>
                  getOrCreateWalletBankAccount env (companyRealmId v)
                    (str_or (e_account e) []) ?s0 = (Inr toId, s1) \<and>
                  a = str_or (e_account e) []"
          using g x a ne by (simp add: fs str_or_def)
        show "makeApiCall env (Query (companyRealmId v) (transfer_dedupe_query d)) (world s1)
                = (Inr data, w1)" using hh by blast
        show "\<forall>c\<in>set (transfer_candidates data). PrivateNote c \<noteq> Some ?key" using hh by blast
        show "makeApiCall env (?p toId) w1 = (Inr body, w2)" using hh by blast
        show "Fault body = None" using hh by blast
      qed
      with po have e: "r = Inr (results @ [CREATED Transfer (Some (target v)) a ?hbar d ?key])"
        "s' = s1\<lparr>world := w2, calls := calls s1 @ [?tq, QboCall (?p toId)]\<rparr>"
        by simp_all
      show ?thesis unfolding e by (simp add: issued_def)
    qed
    have "case x of
               Inl e \<Rightarrow> r = Inl e \<and> s' = s1
             | Inr toId \<Rightarrow>
                 (issued s1 s' = [?tq] \<or> issued s1 s' = [?tq, QboCall (?p toId)])
                 \<and> (\<forall>rs. r = Inr rs \<longrightarrow> rs \<noteq> results @ [SKIPPED_QBO Transfer ?key] \<longrightarrow>
                        QboCall (?p toId) \<in> set (issued s1 s'))
                 \<and> (\<forall>data w1 body w2.
                      makeApiCall env (Query (companyRealmId v) (transfer_dedupe_query d)) (world s1)
                        = (Inr data, w1) \<and>
                      (\<forall>c\<in>set (transfer_candidates data). PrivateNote c \<noteq> Some ?key) \<and>
                      makeApiCall env (?p toId) w1 = (Inr body, w2) \<and>
                      Fault body = None \<longrightarrow>
                        r = Inr (results @ [CREATED Transfer (Some (target v)) a ?hbar d ?key]) \<and>
                        issued s1 s' = [?tq, QboCall (?p toId)])"
    proof (cases x)
      case (Inl e)
      then show ?thesis using safe by simp
    next
      case (Inr toId)
      then show ?thesis using safe live [OF Inr] by (simp only: sum.case) blast
    qed
    with a g show "\<exists>a x s1.
            e_account (transfers_or_empty tx ! i) = Some a \<and>
            getOrCreateWalletBankAccount env (companyRealmId v) a ?s0 = (x, s1) \<and>
            (case x of
               Inl e \<Rightarrow> r = Inl e \<and> s' = s1
             | Inr toId \<Rightarrow>
                 (issued s1 s' = [?tq] \<or> issued s1 s' = [?tq, QboCall (?p toId)])
                 \<and> (\<forall>rs. r = Inr rs \<longrightarrow> rs \<noteq> results @ [SKIPPED_QBO Transfer ?key] \<longrightarrow>
                        QboCall (?p toId) \<in> set (issued s1 s'))
                 \<and> (\<forall>data w1 body w2.
                      makeApiCall env (Query (companyRealmId v) (transfer_dedupe_query d)) (world s1)
                        = (Inr data, w1) \<and>
                      (\<forall>c\<in>set (transfer_candidates data). PrivateNote c \<noteq> Some ?key) \<and>
                      makeApiCall env (?p toId) w1 = (Inr body, w2) \<and>
                      Fault body = None \<longrightarrow>
                        r = Inr (results @ [CREATED Transfer (Some (target v)) a ?hbar d ?key]) \<and>
                        issued s1 s' = [?tq, QboCall (?p toId)]))"
      by blast
  qed
qed


text \<open>
  The theorem at the two outbound transactions of the scenarios, run against the ledger
  that holds the three accounts of the set-up: the outflow to the untracked \<open>0.0.999\<close> is
  transferred to the external-outflow account (id 3); the transfer to the tracked
  \<open>0.0.200\<close>, whose entry comes second and carries a positive amount, goes to the wallet
  account created for it (id 4).
\<close>

theorem C10_transfer_destination_witness:
  "fst (processTx (ledger_env never []) demo_config demo_vars tx_outflow [] ready)
     = Inr [CREATED Transfer (Some ''0.0.100'') ''External Wallet'' (Fin 3) ''2023-11-14''
              ''hedera:0.0.1-3-3:1700000200.0'']
   \<and> issued ready (snd (processTx (ledger_env never []) demo_config demo_vars tx_outflow [] ready))
     = [QboCall (Query ''4620816365'' (transfer_dedupe_query ''2023-11-14'')),
        QboCall (PostTransfer ''4620816365''
          \<lparr>tr_TxnDate = ''2023-11-14'', tr_FromAccountRef = Some ''1'',
           tr_ToAccountRef = Some ''3'', tr_Amount = Fin 3,
           tr_PrivateNote = ''hedera:0.0.1-3-3:1700000200.0''\<rparr>)]
   \<and> fst (getOrCreateWalletBankAccount (ledger_env never []) ''4620816365'' ''0.0.200''
             (ready\<lparr>seenKeys := [''hedera:0.0.1-2-2:1700000100.0'']\<rparr>)) = Inr (Some ''4'')
   \<and> fst (processTx (ledger_env never []) demo_config demo_vars tx_internal [] ready)
     = Inr [CREATED Transfer (Some ''0.0.100'') ''0.0.200'' (Fin 3) ''2023-11-14''
              ''hedera:0.0.1-2-2:1700000100.0'']
   \<and> issued
        (snd (getOrCreateWalletBankAccount (ledger_env never []) ''4620816365'' ''0.0.200''
           (ready\<lparr>seenKeys := [''hedera:0.0.1-2-2:1700000100.0'']\<rparr>)))
        (snd (processTx (ledger_env never []) demo_config demo_vars tx_internal [] ready))
     = [QboCall (Query ''4620816365'' (transfer_dedupe_query ''2023-11-14'')),
        QboCall (PostTransfer ''4620816365''
          \<lparr>tr_TxnDate = ''2023-11-14'', tr_FromAccountRef = Some ''1'',
           tr_ToAccountRef = Some ''4'', tr_Amount = Fin 3,
           tr_PrivateNote = ''hedera:0.0.1-2-2:1700000100.0''\<rparr>)]"
proof -
  let ?env = "ledger_env never [] :: ledger env"
  let ?q = "transfer_dedupe_query ''2023-11-14''"
  let ?hb = "\<lambda>tx. js_div_pos (Math_abs (netTinybarFor tx (target demo_vars))) 100000000"
  have hb: "js_div_pos (Math_abs (netTinybarFor tx_outflow ''0.0.100'')) 100000000 = Fin 3"
    "js_div_pos (Math_abs (netTinybarFor tx_internal ''0.0.100'')) 100000000 = Fin 3"
    by (simp_all add: net_outflow net_internal)
  \<comment> \<open>the outflow\<close>
  have out1: "js_lt_zero (netTinybarFor tx_outflow (target demo_vars))"
    by (simp add: net_outflow)
  have d1: "toTxnDateFromConsensus (clock ?env (world ready)) (consensus_timestamp tx_outflow)
              = Inr ''2023-11-14''" by (rule date_outflow)
  have new1: "makeIdempotencyKey tx_outflow \<notin> set (seenKeys ready)" by simp
  obtain r1 s1' where run1: "processTx ?env demo_config demo_vars tx_outflow [] ready = (r1, s1')"
    by (cases "processTx ?env demo_config demo_vars tx_outflow [] ready")
  have none: "\<forall>e\<in>set (transfers_or_empty tx_outflow).
                \<not> tracked_counterparty demo_config (target demo_vars) e"
    by (simp add: transfers_or_empty_def tx_defs tracked_counterparty_def demo_config_def)
  have lt0: "l_transfers (world ready) = []" by (simp add: ready_def empty_ledger_def)
  let ?data1 = "no_body\<lparr>QueryResponse := Some (ledger_query ?q (world ready))\<rparr>"
  let ?P1 = "\<lparr>tr_TxnDate = ''2023-11-14'', tr_FromAccountRef = targetWalletId demo_vars,
              tr_ToAccountRef = externalOutflowId demo_vars,
              tr_Amount = toFixed2 (?hb tx_outflow),
              tr_PrivateNote = makeIdempotencyKey tx_outflow\<rparr>"
  let ?w2 = "(world ready)\<lparr>l_transfers := l_transfers (world ready) @ [?P1]\<rparr>"
  have h1: "makeApiCall ?env (Query (companyRealmId demo_vars) ?q) (world ready)
              = (Inr ?data1, world ready)"
    using no_transfers_yet [OF lt0, of "[]" "''4620816365''" "''2023-11-14''"] by simp
  have h2: "\<forall>c\<in>set (transfer_candidates ?data1).
              PrivateNote c \<noteq> Some (makeIdempotencyKey tx_outflow)"
    using no_transfers_yet [OF lt0, of "[]" "''4620816365''" "''2023-11-14''"] by simp
  have h3: "makeApiCall ?env (PostTransfer (companyRealmId demo_vars) ?P1) (world ready)
              = (Inr no_body, ?w2)"
    by (rule transfer_accepted [THEN conjunct1])
  have h4: "Fault no_body = None" by (simp add: no_body_def)
  have "r1 = Inr ([] @ [CREATED Transfer (Some (target demo_vars)) ''External Wallet''
                     (?hb tx_outflow) ''2023-11-14'' (makeIdempotencyKey tx_outflow)]) \<and>
        issued ready s1' =
          [QboCall (Query (companyRealmId demo_vars) ?q),
           QboCall (PostTransfer (companyRealmId demo_vars) ?P1)]"
    using C10_transfer_destination [OF out1 d1 new1 run1, where data = ?data1
        and ?w1.0 = "world ready" and body = no_body and ?w2.0 = ?w2]
      none h1 h2 h3 h4
    by blast
  then have A: "r1 = Inr [CREATED Transfer (Some ''0.0.100'') ''External Wallet'' (Fin 3)
                       ''2023-11-14'' ''hedera:0.0.1-3-3:1700000200.0'']
           \<and> issued ready s1' =
               [QboCall (Query ''4620816365'' ?q),
                QboCall (PostTransfer ''4620816365''
                  \<lparr>tr_TxnDate = ''2023-11-14'', tr_FromAccountRef = Some ''1'',
                   tr_ToAccountRef = Some ''3'', tr_Amount = Fin 3,
                   tr_PrivateNote = ''hedera:0.0.1-3-3:1700000200.0''\<rparr>)]"
    by (simp add: key_outflow hb toFixed2_3 del: toFixed2.simps)
  \<comment> \<open>the transfer between tracked accounts\<close>
  have out2: "js_lt_zero (netTinybarFor tx_internal (target demo_vars))"
    by (simp add: net_internal)
  have d2: "toTxnDateFromConsensus (clock ?env (world ready)) (consensus_timestamp tx_internal)
              = Inr ''2023-11-14''" by (rule date_internal)
  have new2: "makeIdempotencyKey tx_internal \<notin> set (seenKeys ready)" by simp
  obtain r2 s2' where run2: "processTx ?env demo_config demo_vars tx_internal [] ready = (r2, s2')"
    by (cases "processTx ?env demo_config demo_vars tx_internal [] ready")
  have idx: "1 < length (transfers_or_empty tx_internal) \<and>
      tracked_counterparty demo_config (target demo_vars) (transfers_or_empty tx_internal ! 1) \<and>
      (\<forall>j<1. \<not> tracked_counterparty demo_config (target demo_vars)
                  (transfers_or_empty tx_internal ! j))"
    by (simp add: transfers_or_empty_def tx_defs tracked_counterparty_def demo_config_def)
  have acct: "e_account (transfers_or_empty tx_internal ! 1) = Some ''0.0.200''"
    by (simp add: transfers_or_empty_def tx_defs)
  let ?p2 = "\<lambda>toId. \<lparr>tr_TxnDate = ''2023-11-14'', tr_FromAccountRef = targetWalletId demo_vars,
             tr_ToAccountRef = toId, tr_Amount = toFixed2 (?hb tx_internal),
             tr_PrivateNote = makeIdempotencyKey tx_internal\<rparr>"
  let ?s0 = "ready\<lparr>seenKeys := seenKeys ready @ [makeIdempotencyKey tx_internal]\<rparr>"
  note T2 = C10_transfer_destination [OF out2 d2 new2 run2, THEN conjunct2, rule_format, OF idx]
  from T2 obtain a x s1 where acx:
    "e_account (transfers_or_empty tx_internal ! 1) = Some a \<and>
     getOrCreateWalletBankAccount ?env (companyRealmId demo_vars) a ?s0 = (x, s1) \<and>
     (case x of
        Inl e \<Rightarrow> r2 = Inl e \<and> s2' = s1
      | Inr toId \<Rightarrow>
          (issued s1 s2' = [QboCall (Query (companyRealmId demo_vars) ?q)]
           \<or> issued s1 s2' =
               [QboCall (Query (companyRealmId demo_vars) ?q),
                QboCall (PostTransfer (companyRealmId demo_vars) (?p2 toId))])
          \<and> (\<forall>rs. r2 = Inr rs \<longrightarrow>
                 rs \<noteq> [] @ [SKIPPED_QBO Transfer (makeIdempotencyKey tx_internal)] \<longrightarrow>
                 QboCall (PostTransfer (companyRealmId demo_vars) (?p2 toId))
                   \<in> set (issued s1 s2'))
          \<and> (\<forall>data w1 body w2.
               makeApiCall ?env (Query (companyRealmId demo_vars) ?q) (world s1)
                 = (Inr data, w1) \<and>
               (\<forall>c\<in>set (transfer_candidates data).
                   PrivateNote c \<noteq> Some (makeIdempotencyKey tx_internal)) \<and>
               makeApiCall ?env (PostTransfer (companyRealmId demo_vars) (?p2 toId)) w1
                 = (Inr body, w2) \<and>
               Fault body = None \<longrightarrow>
                 r2 = Inr ([] @ [CREATED Transfer (Some (target demo_vars)) a
                        (?hb tx_internal) ''2023-11-14'' (makeIdempotencyKey tx_internal)]) \<and>
                 issued s1 s2' =
                   [QboCall (Query (companyRealmId demo_vars) ?q),
                    QboCall (PostTransfer (companyRealmId demo_vars) (?p2 toId))]))"
    by (elim exE) (rule that)
  note a = acx [THEN conjunct1]
  note g = acx [THEN conjunct2, THEN conjunct1]
  note c = acx [THEN conjunct2, THEN conjunct2]
  from a acct have a200: "a = ''0.0.200''" by simp
  from g have g': "getOrCreateWalletBankAccount ?env ''4620816365'' ''0.0.200''
              (ready\<lparr>seenKeys := [''hedera:0.0.1-2-2:1700000100.0'']\<rparr>) = (x, s1)"
    by (simp add: a200 key_internal)
  then have x: "x = Inr (Some ''4'')"
    and s1: "s1 = ready\<lparr>seenKeys := [''hedera:0.0.1-2-2:1700000100.0''],
        world := empty_ledger\<lparr>l_accounts :=
          [''Hedera 0.0.100'', ''Hedera Clearing'', ''External Hedera Outflow'',
           ''Hedera 0.0.200'']\<rparr>,
        calls := [QboCall (Query ''4620816365'' (account_find_query ''Hedera 0.0.200'')),
                  QboCall (PostAccount ''4620816365''
                    \<lparr>acc_Name = ''Hedera 0.0.200'', acc_AccountType = ''Bank'',
                     acc_AccountSubType = None\<rparr>)]\<rparr>"
    by (simp_all add: wallet_200)
  have lt1: "l_transfers (world s1) = []" unfolding s1 by (simp add: empty_ledger_def)
  let ?data2 = "no_body\<lparr>QueryResponse := Some (ledger_query ?q (world s1))\<rparr>"
  let ?w3 = "(world s1)\<lparr>l_transfers := l_transfers (world s1) @ [?p2 (Some ''4'')]\<rparr>"
  have k1: "makeApiCall ?env (Query (companyRealmId demo_vars) ?q) (world s1)
              = (Inr ?data2, world s1)"
    using no_transfers_yet [OF lt1, of "[]" "''4620816365''" "''2023-11-14''"] by simp
  have k2: "\<forall>c\<in>set (transfer_candidates ?data2).
              PrivateNote c \<noteq> Some (makeIdempotencyKey tx_internal)"
    using no_transfers_yet [OF lt1, of "[]" "''4620816365''" "''2023-11-14''"] by simp
  have k3: "makeApiCall ?env (PostTransfer (companyRealmId demo_vars) (?p2 (Some ''4''))) (world s1)
              = (Inr no_body, ?w3)"
    by (rule transfer_accepted [THEN conjunct1])
  have k4: "Fault no_body = None" by (simp add: no_body_def)
  note live = c [unfolded x sum.case, THEN conjunct2, THEN conjunct2, rule_format,
      of ?data2 "world s1" no_body ?w3]
  have "r2 = Inr ([] @ [CREATED Transfer (Some (target demo_vars)) a
                               (?hb tx_internal) ''2023-11-14'' (makeIdempotencyKey tx_internal)]) \<and>
                        issued s1 s2' =
                          [QboCall (Query (companyRealmId demo_vars) ?q),
                           QboCall (PostTransfer (companyRealmId demo_vars) (?p2 (Some ''4'')))]"
    by (rule live) (intro conjI k1 k2 k3 k4)
  then have B: "r2 = Inr [CREATED Transfer (Some ''0.0.100'') ''0.0.200'' (Fin 3) ''2023-11-14''
                       ''hedera:0.0.1-2-2:1700000100.0'']
           \<and> issued s1 s2' =
               [QboCall (Query ''4620816365'' ?q),
                QboCall (PostTransfer ''4620816365''
                  \<lparr>tr_TxnDate = ''2023-11-14'', tr_FromAccountRef = Some ''1'',
                   tr_ToAccountRef = Some ''4'', tr_Amount = Fin 3,
                   tr_PrivateNote = ''hedera:0.0.1-2-2:1700000100.0''\<rparr>)]"
    by (simp add: key_internal hb a200 toFixed2_3 del: toFixed2.simps)
  show ?thesis using A B x by (simp add: run1 run2 g')
qed

section \<open>Direction of the accounting effect\<close>

lemma issued_refl [simp]: "issued s s = []"
  by (simp add: issued_def)










subsection \<open>The loop and the set-up\<close>














end
